theory Spec2Isabelle
  imports Complex_Main "HOL-Library.AList"
begin

section \<open>Python values and errors\<close>

text \<open>
  The development embeds \<^verbatim>\<open>picaso/atmsetup.py\<close> (class \<^verbatim>\<open>ATMSETUP\<close>).
  Python floats are modelled by the reals, Python strings by ASCII \<^typ>\<open>string\<close>s,
  and every exception the source can raise is a value of \<open>py_error\<close>; a method that
  may raise returns \<open>py_error + 'a\<close> with \<open>Inl\<close> carrying the exception.
\<close>

datatype py_error =
    IndexError
  | TypeError
  | ValueError
  | KeyError string
  | NameError string
  | UnboundLocalError string
  | AttributeError string
  | AssertionError string
  | Exception string

subsection \<open>Characters\<close>

text \<open>
  A \<^typ>\<open>char\<close> is a byte, and the strings of the model are the ASCII strings of Python:
  \<open>ascii\<close> says that every character of a string is below 128. On these the three
  character tests below are those of Python (beyond ASCII, Python knows further letters
  and digits); a statement that rests on these tests for every string of some kind
  carries \<open>ascii\<close> among its hypotheses.
\<close>

definition ascii :: "string \<Rightarrow> bool" where
  "ascii i = list_all (\<lambda>c. (of_char c :: nat) < 128) i"

definition isupper :: "char \<Rightarrow> bool" where
  "isupper c = (let n = (of_char c :: nat) in 65 \<le> n \<and> n \<le> 90)"

definition islower :: "char \<Rightarrow> bool" where
  "islower c = (let n = (of_char c :: nat) in 97 \<le> n \<and> n \<le> 122)"

text \<open>\<^verbatim>\<open>float(i[j])\<close> on a one-character string: a decimal digit converts, anything
  else raises \<^verbatim>\<open>ValueError\<close> (here \<open>None\<close>).\<close>

definition float_char :: "char \<Rightarrow> real option" where
  "float_char c = (let n = (of_char c :: nat) in
     if 48 \<le> n \<and> n \<le> 57 then Some (real (n - 48)) else None)"

section \<open>Molecular weights: \<^verbatim>\<open>get_weights\<close>\<close>

text \<open>An entry of \<^verbatim>\<open>molecule_list\<close> is a float or a string.\<close>

datatype tok = Num real | Sym string

text \<open>
  One pass of the first inner loop, at string index \<open>j\<close> with character \<open>c\<close>:
  \<^verbatim>\<open>
  try:
      molecule_list += [float(i[j])]
  except:
      if i[j].isupper(): molecule_list += [i[j]]
      elif i[j].islower(): molecule_list[j-1] = molecule_list[j-1] + i[j]
  \<close>
  The index \<open>j-1\<close> is an index of the \<^emph>\<open>string\<close> used on the list: for \<open>j = 0\<close> it is
  Python's \<open>-1\<close> (the last entry), and it raises \<^verbatim>\<open>IndexError\<close> whenever the list is
  shorter; adding a character to a float raises \<^verbatim>\<open>TypeError\<close>.
\<close>

definition py_index :: "'a list \<Rightarrow> int \<Rightarrow> nat option" where
  "py_index xs i =
     (let n = int (length xs); k = (if i < 0 then n + i else i)
      in if 0 \<le> k \<and> k < n then Some (nat k) else None)"

definition molecule_list_step :: "tok list \<Rightarrow> nat \<Rightarrow> char \<Rightarrow> py_error + tok list" where
  "molecule_list_step ml j c =
     (case float_char c of
        Some v \<Rightarrow> Inr (ml @ [Num v])
      | None \<Rightarrow>
          if isupper c then Inr (ml @ [Sym [c]])
          else if islower c then
            (case py_index ml (int j - 1) of
               None \<Rightarrow> Inl IndexError
             | Some k \<Rightarrow>
                 (case ml ! k of
                    Num v \<Rightarrow> Inl TypeError
                  | Sym s \<Rightarrow> Inr (ml[k := Sym (s @ [c])])))
          else Inr ml)"

text \<open>\<^verbatim>\<open>for j in range(0,len(i))\<close>: the loop from index \<open>j\<close> over the remaining characters.\<close>

fun molecule_list_loop :: "tok list \<Rightarrow> nat \<Rightarrow> string \<Rightarrow> py_error + tok list" where
  "molecule_list_loop ml j [] = Inr ml"
| "molecule_list_loop ml j (c # cs) =
     (case molecule_list_step ml j c of
        Inl e \<Rightarrow> Inl e
      | Inr ml' \<Rightarrow> molecule_list_loop ml' (Suc j) cs)"

text \<open>
  \<^verbatim>\<open>float(molecule_list[j+1])\<close> inside \<^verbatim>\<open>try\<close>: a float entry is the count; a missing
  entry (\<^verbatim>\<open>IndexError\<close>) or a string entry (\<^verbatim>\<open>ValueError\<close>: an element symbol is an
  uppercase letter with at most one lowercase letter, never a float literal) gives 1.
\<close>

definition count_after :: "tok list \<Rightarrow> nat \<Rightarrow> real" where
  "count_after ml j =
     (if Suc j < length ml then (case ml ! Suc j of Num v \<Rightarrow> v | Sym s \<Rightarrow> 1) else 1)"

text \<open>
  The second inner loop, from index \<open>j\<close>, over the table \<open>ele\<close> of element masses
  (\<^verbatim>\<open>ELEMENTS[sym].mass\<close>; the table itself lives in \<^verbatim>\<open>elements.py\<close> and is a
  parameter here). An unknown symbol raises \<^verbatim>\<open>KeyError\<close>.
\<close>

function totmass_loop :: "(string \<rightharpoonup> real) \<Rightarrow> tok list \<Rightarrow> nat \<Rightarrow> real \<Rightarrow> py_error + real" where
  "totmass_loop ele ml j totmass =
     (if j < length ml then
        (case ml ! j of
           Sym s \<Rightarrow>
             (case ele s of
                None \<Rightarrow> Inl (KeyError s)
              | Some mass \<Rightarrow> totmass_loop ele ml (Suc j) (totmass + mass * count_after ml j))
         | Num v \<Rightarrow> totmass_loop ele ml (Suc j) totmass)
      else Inr totmass)"
  by pat_completeness auto
termination
  by (relation "measure (\<lambda>(ele, ml, j, totmass). length ml - j)") auto

declare totmass_loop.simps [simp del]

text \<open>The body of the outer loop for one formula \<open>i\<close>.\<close>

definition molecule_weight :: "(string \<rightharpoonup> real) \<Rightarrow> string \<Rightarrow> py_error + real" where
  "molecule_weight ele i =
     (case molecule_list_loop [] 0 i of
        Inl e \<Rightarrow> Inl e
      | Inr ml \<Rightarrow> totmass_loop ele ml 0 0)"

text \<open>\<^verbatim>\<open>get_weights(molecule)\<close> for a list of formulas: the dict \<open>weights\<close>, filled in order.\<close>

fun get_weights_loop ::
  "(string \<rightharpoonup> real) \<Rightarrow> (string \<rightharpoonup> real) \<Rightarrow> string list \<Rightarrow> py_error + (string \<rightharpoonup> real)" where
  "get_weights_loop ele weights [] = Inr weights"
| "get_weights_loop ele weights (i # rest) =
     (case molecule_weight ele i of
        Inl e \<Rightarrow> Inl e
      | Inr totmass \<Rightarrow> get_weights_loop ele (weights(i \<mapsto> totmass)) rest)"

definition get_weights :: "(string \<rightharpoonup> real) \<Rightarrow> string list \<Rightarrow> py_error + (string \<rightharpoonup> real)" where
  "get_weights ele molecule = get_weights_loop ele Map.empty molecule"


section \<open>Arrays and the state of an \<^verbatim>\<open>ATMSETUP\<close> instance\<close>

text \<open>
  A numpy array of rank 1 to 4 is a nested list of rows together with its trailing
  dimensions, which numpy keeps in the shape even when there is no row:
  \<open>A3 ng nt rows\<close> has shape \<open>(length rows, ng, nt)\<close>, and \<open>A4 nm ng nt rows\<close> has shape
  \<open>(length rows, nm, ng, nt)\<close>.
\<close>

datatype ndarray =
    A1 "real list"
  | A2 nat "real list list"
  | A3 nat nat "real list list list"
  | A4 nat nat nat "real list list list list"

fun ndim :: "ndarray \<Rightarrow> nat" where
  "ndim (A1 xs) = 1"
| "ndim (A2 m rows) = 2"
| "ndim (A3 ng nt rows) = 3"
| "ndim (A4 nm ng nt rows) = 4"



text \<open>
  The attributes of \<^verbatim>\<open>self\<close>. An attribute that \<^verbatim>\<open>__init__\<close> does not set is an
  \<open>option\<close>, \<open>None\<close> until a method assigns it. \<^verbatim>\<open>self.layer['cloud']\<close> and
  \<^verbatim>\<open>self.layer['scattering']\<close> are dicts of arrays and have fields of their own.
\<close>

record atmsetup =
  warnings :: "string list"
  dimension :: "string option"
  level :: "string \<rightharpoonup> ndarray"
  layer :: "string \<rightharpoonup> ndarray"
  layer_cloud :: "(string \<rightharpoonup> ndarray) option"
  layer_scattering :: "(string \<rightharpoonup> ndarray) option"
  molecules :: "string list option"
  weights :: "(string \<times> real) list option"
  continuum_molecules :: "(string \<times> string) list option"
  gangles :: "string list option"
  tangles :: "string list option"
  planet_gravity :: "real option"
  c_pconv :: real
  c_k_b :: real
  c_ngangle :: nat
  c_ntangle :: nat
  c_nlevel :: "int option"
  c_nlayer :: "int option"
  c_input_npts_wave :: "nat option"
  c_output_npts_wave :: "nat option"

text \<open>
  \<^verbatim>\<open>__init__\<close> with \<^verbatim>\<open>get_constants\<close>: empty warnings, empty \<^verbatim>\<open>level\<close> and \<^verbatim>\<open>layer\<close>,
  \<^verbatim>\<open>pconv = 1e6\<close>, the angular grid sizes from \<^verbatim>\<open>input['disco']\<close>. The Boltzmann
  constant comes from astropy and is a parameter.
\<close>

definition init :: "real \<Rightarrow> nat \<Rightarrow> nat \<Rightarrow> atmsetup" where
  "init k_b num_gangle num_tangle =
     \<lparr> warnings = [], dimension = None, level = Map.empty, layer = Map.empty,
       layer_cloud = None, layer_scattering = None, molecules = None, weights = None,
       continuum_molecules = None, gangles = None, tangles = None, planet_gravity = None,
       c_pconv = 1000000, c_k_b = k_b, c_ngangle = num_gangle, c_ntangle = num_tangle,
       c_nlevel = None, c_nlayer = None, c_input_npts_wave = None,
       c_output_npts_wave = None \<rparr>"

text \<open>\<^verbatim>\<open>add_warnings\<close>: \<^verbatim>\<open>self.warnings += [warn]\<close>\<close>

definition add_warnings :: "atmsetup \<Rightarrow> string \<Rightarrow> atmsetup" where
  "add_warnings s warn = s\<lparr>warnings := warnings s @ [warn]\<rparr>"

section \<open>Continuum species: \<^verbatim>\<open>get_needed_continuum\<close>\<close>

text \<open>
  The method reads \<^verbatim>\<open>self.molecules\<close> (\<^verbatim>\<open>AttributeError\<close> when no profile was loaded)
  and the keys of \<^verbatim>\<open>self.level\<close>, appends the pairs in the order of the source, calls
  \<^verbatim>\<open>add_warnings\<close> under the test \<^verbatim>\<open>'H+' in ['H','H2-','H2','H-','He','N2']\<close>, and filters
  the registry.
\<close>

definition get_needed_continuum :: "atmsetup \<Rightarrow> py_error + atmsetup" where
  "get_needed_continuum s =
     (case molecules s of
        None \<Rightarrow> Inl (AttributeError ''molecules'')
      | Some ms \<Rightarrow>
          (let electrons = (level s ''electrons'' \<noteq> None);
               cm0 = [];
               cm1 = (if ''H2'' \<in> set ms then cm0 @ [(''H2'', ''H2'')] else cm0);
               cm2 = (if ''H2'' \<in> set ms \<and> ''He'' \<in> set ms then cm1 @ [(''H2'', ''He'')] else cm1);
               cm3 = (if ''H2'' \<in> set ms \<and> ''N2'' \<in> set ms then cm2 @ [(''H2'', ''N2'')] else cm2);
               cm4 = (if ''H2'' \<in> set ms \<and> ''H'' \<in> set ms then cm3 @ [(''H2'', ''H'')] else cm3);
               cm5 = (if ''H2'' \<in> set ms \<and> ''CH4'' \<in> set ms then cm4 @ [(''H2'', ''CH4'')] else cm4);
               cm6 = (if ''H-'' \<in> set ms then cm5 @ [(''H-'', ''bf'')] else cm5);
               cm7 = (if ''H'' \<in> set ms \<and> electrons then cm6 @ [(''H-'', ''ff'')] else cm6);
               cm8 = (if ''H2'' \<in> set ms \<and> electrons then cm7 @ [(''H2'', ''H2-'')] else cm7);
               s1 = s\<lparr>continuum_molecules := Some cm8\<rparr>;
               s2 = (if ''H+'' \<in> set [''H'', ''H2-'', ''H2'', ''H-'', ''He'', ''N2'']
                     then add_warnings s1 ''No H+ continuum opacity included'' else s1)
           in Inr (s2\<lparr>molecules :=
                Some (filter (\<lambda>x. x \<notin> set [''H'', ''H2-'', ''H2'', ''H-'', ''He'', ''N2'', ''H+'']) ms)\<rparr>)))"


section \<open>The 1-D profile loader: \<^verbatim>\<open>get_profile\<close>\<close>

subsection \<open>Tables\<close>

text \<open>
  \<^verbatim>\<open>read\<close> is a pandas DataFrame (its number of rows and its named columns, in order) or
  a dict of columns. A DataFrame column holds one value per row, and the column names of
  a DataFrame are distinct.
\<close>

datatype table =
    DataFrame nat "(string \<times> real list) list"
  | Dict "(string \<times> real list) list"

fun table_columns :: "table \<Rightarrow> (string \<times> real list) list" where
  "table_columns (DataFrame n cols) = cols"
| "table_columns (Dict cols) = cols"

definition table_keys :: "table \<Rightarrow> string list" where
  "table_keys read = map fst (table_columns read)"

text \<open>\<^verbatim>\<open>read[key].values\<close>\<close>

definition table_get :: "table \<Rightarrow> string \<Rightarrow> py_error + real list" where
  "table_get read key =
     (case map_of (table_columns read) key of
        None \<Rightarrow> Inl (KeyError key)
      | Some col \<Rightarrow> Inr col)"


text \<open>
  \<^verbatim>\<open>read[list(weights.keys())].as_matrix()\<close>: the matrix of the named columns, one row
  per table row. A missing column raises \<^verbatim>\<open>KeyError\<close>; a dict cannot be indexed by a
  list (\<^verbatim>\<open>TypeError\<close>: unhashable).
\<close>

fun as_matrix :: "table \<Rightarrow> string list \<Rightarrow> py_error + ndarray" where
  "as_matrix (Dict cols) keys = Inl TypeError"
| "as_matrix (DataFrame n cols) keys =
     (case filter (\<lambda>k. map_of cols k = None) keys of
        k # ks \<Rightarrow> Inl (KeyError k)
      | [] \<Rightarrow> Inr (A2 (length keys)
                 (map (\<lambda>r. map (\<lambda>k. the (map_of cols k) ! r) keys) [0..<n])))"

subsection \<open>Array arithmetic used by the loaders\<close>

text \<open>Elementwise numpy operations on operands of one shape, and slices of the rows.\<close>

definition np_add :: "real list \<Rightarrow> real list \<Rightarrow> real list" where
  "np_add xs ys = map2 (+) xs ys"

definition np_mul :: "real list \<Rightarrow> real list \<Rightarrow> real list" where
  "np_mul xs ys = map2 (*) xs ys"

definition np_scale :: "real \<Rightarrow> real list \<Rightarrow> real list" where
  "np_scale k xs = map (\<lambda>x. k * x) xs"

definition np_sqrt :: "real list \<Rightarrow> real list" where
  "np_sqrt xs = map sqrt xs"

text \<open>\<^verbatim>\<open>0.5*(x[1:] + x[:-1])\<close>\<close>

definition mean_1_m1 :: "real list \<Rightarrow> real list" where
  "mean_1_m1 x = np_scale 0.5 (np_add (drop 1 x) (butlast x))"

text \<open>\<^verbatim>\<open>np.sqrt(x[1:] * x[:-1])\<close>\<close>

definition sqrt_1_m1 :: "real list \<Rightarrow> real list" where
  "sqrt_1_m1 x = np_sqrt (np_mul (drop 1 x) (butlast x))"

text \<open>\<^verbatim>\<open>0.5*(x[1:,:] + x[:-1,:])\<close> on the rows of a matrix\<close>

definition mean_rows_1_m1 :: "real list list \<Rightarrow> real list list" where
  "mean_rows_1_m1 x = map2 (\<lambda>a b. np_scale 0.5 (np_add a b)) (drop 1 x) (butlast x)"

subsection \<open>Configuration\<close>

text \<open>
  \<^verbatim>\<open>self.input['atmosphere']\<close>. \<open>profile_profile\<close> is \<open>None\<close> when the entry is neither a
  DataFrame nor a dict; \<open>molecules_whichones\<close> is \<open>None\<close> when the entry is not a list; a
  \<^verbatim>\<open>PT\<close> entry is \<open>None\<close> when it is neither a float nor an int.
\<close>

record atmosphere_input =
  profile_type :: string
  profile_filepath :: "string option"
  profile_profile :: "table option"
  molecules_whichones :: "string list option"
  PT_T :: "real option"
  PT_logg1 :: "real option"
  PT_logKir :: "real option"
  PT_logPc :: "real option"
  clouds_filepath :: "string option"
  clouds_wavenumber :: "string option"
  scattering_g0 :: "real option"
  scattering_w0 :: "real option"

subsection \<open>Classifying the columns\<close>

text \<open>
  \<^verbatim>\<open>weights[i] = pd.Series([self.get_weights([i])[i]])\<close> under \<^verbatim>\<open>try\<close>: \<open>None\<close> when
  anything raises. The local DataFrame \<^verbatim>\<open>weights\<close> is an association list; assigning a
  column keeps the place of an existing name and appends a new one.
\<close>

definition try_weight :: "(string \<rightharpoonup> real) \<Rightarrow> string \<Rightarrow> real option" where
  "try_weight ele i = (case get_weights ele [i] of Inl e \<Rightarrow> None | Inr w \<Rightarrow> w i)"

text \<open>The \<^verbatim>\<open>except\<close> branch for \<^verbatim>\<open>'e-'\<close>, shared by both loops.\<close>

definition set_electrons :: "table \<Rightarrow> atmsetup \<Rightarrow> py_error + atmsetup" where
  "set_electrons read s =
     (case table_get read ''e-'' of
        Inl e \<Rightarrow> Inl e
      | Inr col \<Rightarrow>
          Inr (s\<lparr>level := (level s)(''electrons'' \<mapsto> A1 col),
                 layer := (layer s)(''electrons'' \<mapsto> A1 (mean_1_m1 col))\<rparr>))"

text \<open>One pass of \<^verbatim>\<open>for i in chemistry_input['molecules']['whichones']\<close>.\<close>

definition whichones_step ::
  "(string \<rightharpoonup> real) \<Rightarrow> table \<Rightarrow> (string \<times> real) list \<times> atmsetup \<Rightarrow> string \<Rightarrow>
   py_error + (string \<times> real) list \<times> atmsetup" where
  "whichones_step ele read ws i =
     (case try_weight ele i of
        Some m \<Rightarrow> Inr (AList.update i m (fst ws), snd ws)
      | None \<Rightarrow>
          if i = ''e-'' then
            (case set_electrons read (snd ws) of
               Inl e \<Rightarrow> Inl e
             | Inr s' \<Rightarrow> Inr (fst ws, s'))
          else Inl (Exception (''Molecule '' @ i @
                 '' in whichones is not recognized, check list and resubmit'')))"

text \<open>One pass of \<^verbatim>\<open>for i in read.keys()\<close>.\<close>

definition column_step ::
  "(string \<rightharpoonup> real) \<Rightarrow> table \<Rightarrow> (string \<times> real) list \<times> atmsetup \<Rightarrow> string \<Rightarrow>
   py_error + (string \<times> real) list \<times> atmsetup" where
  "column_step ele read ws i =
     (if i \<in> set [''pressure'', ''temperature''] then Inr ws
      else
        (case try_weight ele i of
           Some m \<Rightarrow>
             (case molecules (snd ws) of
                None \<Rightarrow> Inl (AttributeError ''molecules'')
              | Some ms \<Rightarrow>
                  Inr (AList.update i m (fst ws), (snd ws)\<lparr>molecules := Some (ms @ [i])\<rparr>))
         | None \<Rightarrow>
             if i = ''e-'' then
               (case set_electrons read (snd ws) of
                  Inl e \<Rightarrow> Inl e
                | Inr s' \<Rightarrow> Inr (fst ws, s'))
             else Inr (fst ws, add_warnings (snd ws)
                    (''Ignoring '' @ i @ '' in input file, not recognized molecule''))))"

text \<open>A \<^verbatim>\<open>for\<close> loop whose body may raise.\<close>

fun for_loop :: "('s \<Rightarrow> 'a \<Rightarrow> py_error + 's) \<Rightarrow> 's \<Rightarrow> 'a list \<Rightarrow> py_error + 's" where
  "for_loop body st [] = Inr st"
| "for_loop body st (x # xs) =
     (case body st x of Inl e \<Rightarrow> Inl e | Inr st' \<Rightarrow> for_loop body st' xs)"


subsection \<open>The loader\<close>

text \<open>
  The table: \<^verbatim>\<open>pd.read_csv\<close> (a parameter) on the file path, or the DataFrame or dict
  given in the configuration.
\<close>

definition get_profile_read ::
  "(string \<Rightarrow> py_error + table) \<Rightarrow> atmosphere_input \<Rightarrow> py_error + table" where
  "get_profile_read read_csv chemistry_input =
     (if profile_type chemistry_input = ''user'' then
        (case profile_filepath chemistry_input of
           Some path \<Rightarrow> read_csv path
         | None \<Rightarrow>
             (case profile_profile chemistry_input of
                Some read \<Rightarrow> Inr read
              | None \<Rightarrow> Inl (Exception ''Provide dictionary or a pointer to pointer to filepath'')))
      else Inl (Exception ''TODO: only capability for user is included right now''))"

text \<open>The molecular weights and the registry, from the list or from every column.\<close>

definition get_profile_molecules ::
  "(string \<rightharpoonup> real) \<Rightarrow> atmosphere_input \<Rightarrow> table \<Rightarrow> atmsetup \<Rightarrow>
   py_error + (string \<times> real) list \<times> atmsetup" where
  "get_profile_molecules ele chemistry_input read s =
     (case molecules_whichones chemistry_input of
        Some whichones \<Rightarrow>
          for_loop (whichones_step ele read) ([], s\<lparr>molecules := Some whichones\<rparr>) whichones
      | None \<Rightarrow>
          for_loop (column_step ele read) ([], s\<lparr>molecules := Some []\<rparr>) (table_keys read))"

text \<open>\<^verbatim>\<open>calc_PT\<close>, the method of the class: it raises at once.\<close>

definition calc_PT :: "real \<Rightarrow> real \<Rightarrow> real \<Rightarrow> real \<Rightarrow> py_error + table" where
  "calc_PT T logKir logg1 logPc =
     Inl (Exception ''TODO: Temperature parameterization option not included yet'')"

text \<open>
  The temperature and pressure profile. With both columns in the table they are read from
  it. Otherwise, with four numeric \<^verbatim>\<open>PT\<close> entries, the source evaluates
  \<^verbatim>\<open>calc_TP(T,logKir, logg1, logPc)\<close>: no module-level name \<^verbatim>\<open>calc_TP\<close> exists (the
  imports bring none, and the method of the class is \<^verbatim>\<open>self.calc_PT\<close>), so Python
  raises \<^verbatim>\<open>NameError\<close>.
\<close>

definition get_profile_PT :: "atmosphere_input \<Rightarrow> table \<Rightarrow> atmsetup \<Rightarrow> py_error + atmsetup" where
  "get_profile_PT chemistry_input read s =
     (if ''temperature'' \<in> set (table_keys read) \<and> ''pressure'' \<in> set (table_keys read) then
        (case table_get read ''temperature'' of
           Inl e \<Rightarrow> Inl e
         | Inr temperature \<Rightarrow>
             (case table_get read ''pressure'' of
                Inl e \<Rightarrow> Inl e
              | Inr pressure \<Rightarrow>
                  (let level_pressure = map (\<lambda>p. p * c_pconv s) pressure
                   in Inr (s\<lparr>level := (level s)(''temperature'' \<mapsto> A1 temperature,
                                                  ''pressure'' \<mapsto> A1 level_pressure),
                              layer := (layer s)(''temperature'' \<mapsto> A1 (mean_1_m1 temperature),
                                                  ''pressure'' \<mapsto> A1 (sqrt_1_m1 level_pressure))\<rparr>))))
      else if PT_T chemistry_input \<noteq> None \<and> PT_logg1 chemistry_input \<noteq> None \<and>
              PT_logKir chemistry_input \<noteq> None \<and> PT_logPc chemistry_input \<noteq> None then
        Inl (NameError ''calc_TP'')
      else Inl (Exception ''There is not adequte information to compute PT profile''))"

definition get_profile ::
  "(string \<rightharpoonup> real) \<Rightarrow> (string \<Rightarrow> py_error + table) \<Rightarrow> atmosphere_input \<Rightarrow> atmsetup \<Rightarrow>
   py_error + atmsetup" where
  "get_profile ele read_csv chemistry_input s =
     (case get_profile_read read_csv chemistry_input of
        Inl e \<Rightarrow> Inl e
      | Inr read \<Rightarrow>
     (case get_profile_molecules ele chemistry_input read (s\<lparr>dimension := Some ''1d''\<rparr>) of
        Inl e \<Rightarrow> Inl e
      | Inr (wts, s1) \<Rightarrow>
     (case as_matrix read (map fst wts) of
        Inl e \<Rightarrow> Inl e
      | Inr mixingratios \<Rightarrow>
     (case mixingratios of
        A2 m rows \<Rightarrow>
          (let s2 = s1\<lparr>level := (level s1)(''mixingratios'' \<mapsto> A2 m rows),
                       layer := (layer s1)(''mixingratios'' \<mapsto> A2 m (mean_rows_1_m1 rows)),
                       weights := Some wts\<rparr>
           in (case get_profile_PT chemistry_input read s2 of
                 Inl e \<Rightarrow> Inl e
               | Inr s3 \<Rightarrow>
                   (let nlevel = int (length rows)
                    in Inr (s3\<lparr>c_nlevel := Some nlevel, c_nlayer := Some (nlevel - 1)\<rparr>))))
      | _ \<Rightarrow> Inl TypeError))))"

section \<open>Sequencing and numpy helpers\<close>

text \<open>Sequencing of statements that may raise: the first exception ends the method.\<close>

definition ebind :: "py_error + 'a \<Rightarrow> ('a \<Rightarrow> py_error + 'b) \<Rightarrow> py_error + 'b" where
  "ebind m f = (case m of Inl e \<Rightarrow> Inl e | Inr x \<Rightarrow> f x)"

text \<open>\<^verbatim>\<open>d[key]\<close> on a dict\<close>

definition dict_get :: "(string \<rightharpoonup> 'a) \<Rightarrow> string \<Rightarrow> py_error + 'a" where
  "dict_get d key = (case d key of None \<Rightarrow> Inl (KeyError key) | Some v \<Rightarrow> Inr v)"

text \<open>\<^verbatim>\<open>self.attr\<close> for an attribute that may not have been set\<close>

definition attr_get :: "'a option \<Rightarrow> string \<Rightarrow> py_error + 'a" where
  "attr_get a name = (case a of None \<Rightarrow> Inl (AttributeError name) | Some v \<Rightarrow> Inr v)"

text \<open>\<^verbatim>\<open>xs[i]\<close> on a list, for an index that is not negative\<close>

definition list_get :: "'a list \<Rightarrow> nat \<Rightarrow> py_error + 'a" where
  "list_get xs i = (if i < length xs then Inr (xs ! i) else Inl IndexError)"

text \<open>\<^verbatim>\<open>np.zeros(shape)\<close>: a negative dimension raises \<^verbatim>\<open>ValueError\<close>.\<close>

definition np_zeros2 :: "int \<Rightarrow> nat \<Rightarrow> py_error + ndarray" where
  "np_zeros2 n m =
     (if n < 0 then Inl ValueError else Inr (A2 m (replicate (nat n) (replicate m 0))))"

definition np_zeros3 :: "int \<Rightarrow> nat \<Rightarrow> nat \<Rightarrow> py_error + ndarray" where
  "np_zeros3 n ng nt =
     (if n < 0 then Inl ValueError
      else Inr (A3 ng nt (replicate (nat n) (replicate ng (replicate nt 0)))))"

definition np_zeros4 :: "int \<Rightarrow> nat \<Rightarrow> nat \<Rightarrow> nat \<Rightarrow> py_error + ndarray" where
  "np_zeros4 n nm ng nt =
     (if n < 0 then Inl ValueError
      else Inr (A4 nm ng nt (replicate (nat n) (replicate nm (replicate ng (replicate nt 0))))))"

text \<open>
  \<^verbatim>\<open>a[:,g,t]\<close>: on three dimensions the column of facet \<open>(g, t)\<close>; on four dimensions the
  two indices address the second and third axes; on fewer there are too many indices.
\<close>

fun slice_gt :: "ndarray \<Rightarrow> nat \<Rightarrow> nat \<Rightarrow> py_error + ndarray" where
  "slice_gt (A3 ng nt rows) g t =
     (if g < ng \<and> t < nt then Inr (A1 (map (\<lambda>row. row ! g ! t) rows)) else Inl IndexError)"
| "slice_gt (A4 nm ng nt rows) g t =
     (if g < nm \<and> t < ng then Inr (A2 nt (map (\<lambda>row. row ! g ! t) rows)) else Inl IndexError)"
| "slice_gt a g t = Inl IndexError"

text \<open>\<^verbatim>\<open>a[:,:,g,t]\<close>\<close>

fun slice_mgt :: "ndarray \<Rightarrow> nat \<Rightarrow> nat \<Rightarrow> py_error + ndarray" where
  "slice_mgt (A4 nm ng nt rows) g t =
     (if g < ng \<and> t < nt then Inr (A2 nm (map (map (\<lambda>cell. cell ! g ! t)) rows))
      else Inl IndexError)"
| "slice_mgt a g t = Inl IndexError"

text \<open>
  Broadcasting of an assigned value: a vector fits \<open>n\<close> places when it has \<open>n\<close> entries or
  one entry; a matrix fits \<open>n\<close> by \<open>m\<close> places when each of its dimensions is the wanted one
  or 1. Anything else raises \<^verbatim>\<open>ValueError\<close>.
\<close>

definition broadcast1 :: "nat \<Rightarrow> real list \<Rightarrow> py_error + real list" where
  "broadcast1 n v =
     (if length v = n then Inr v
      else if length v = 1 then Inr (replicate n (v ! 0))
      else Inl ValueError)"

definition broadcast2 :: "nat \<Rightarrow> nat \<Rightarrow> nat \<Rightarrow> real list list \<Rightarrow> py_error + real list list" where
  "broadcast2 n m m' rows =
     (if (length rows = n \<or> length rows = 1) \<and> (m' = m \<or> m' = 1) then
        Inr (map (\<lambda>i. map (\<lambda>j. rows ! (if length rows = n then i else 0)
                                       ! (if m' = m then j else 0)) [0..<m]) [0..<n])
      else Inl ValueError)"

text \<open>\<^verbatim>\<open>a[:,g,t] = v\<close> for a vector \<open>v\<close> and an array of three dimensions\<close>

fun assign_gt :: "ndarray \<Rightarrow> nat \<Rightarrow> nat \<Rightarrow> real list \<Rightarrow> py_error + ndarray" where
  "assign_gt (A3 ng nt rows) g t v =
     (if g < ng \<and> t < nt then
        ebind (broadcast1 (length rows) v)
          (\<lambda>v'. Inr (A3 ng nt (map2 (\<lambda>row x. row[g := (row ! g)[t := x]]) rows v')))
      else Inl IndexError)"
| "assign_gt a g t v = Inl IndexError"

text \<open>\<^verbatim>\<open>a[:,:,g,t] = v\<close> for a matrix \<open>v\<close> and an array of four dimensions\<close>

fun assign_mgt :: "ndarray \<Rightarrow> nat \<Rightarrow> nat \<Rightarrow> ndarray \<Rightarrow> py_error + ndarray" where
  "assign_mgt (A4 nm ng nt rows) g t (A2 m' v) =
     (if g < ng \<and> t < nt then
        ebind (broadcast2 (length rows) nm m' v)
          (\<lambda>v'. Inr (A4 nm ng nt
             (map2 (\<lambda>row vrow. map2 (\<lambda>cell x. cell[g := (cell ! g)[t := x]]) row vrow) rows v')))
      else Inl IndexError)"
| "assign_mgt (A4 nm ng nt rows) g t v = Inl ValueError"
| "assign_mgt a g t v = Inl IndexError"

text \<open>
  Elementwise operations on whole arrays of one shape, and the slices \<^verbatim>\<open>a[1:]\<close> and
  \<^verbatim>\<open>a[:-1]\<close> along the first axis.
\<close>

fun nd_map :: "(real \<Rightarrow> real) \<Rightarrow> ndarray \<Rightarrow> ndarray" where
  "nd_map f (A1 xs) = A1 (map f xs)"
| "nd_map f (A2 m rows) = A2 m (map (map f) rows)"
| "nd_map f (A3 ng nt rows) = A3 ng nt (map (map (map f)) rows)"
| "nd_map f (A4 nm ng nt rows) = A4 nm ng nt (map (map (map (map f))) rows)"

fun nd_map2 :: "(real \<Rightarrow> real \<Rightarrow> real) \<Rightarrow> ndarray \<Rightarrow> ndarray \<Rightarrow> py_error + ndarray" where
  "nd_map2 f (A1 xs) (A1 ys) =
     (if length xs = length ys then Inr (A1 (map2 f xs ys)) else Inl ValueError)"
| "nd_map2 f (A2 m xs) (A2 m' ys) =
     (if length xs = length ys \<and> m = m' then Inr (A2 m (map2 (map2 f) xs ys))
      else Inl ValueError)"
| "nd_map2 f (A3 ng nt xs) (A3 ng' nt' ys) =
     (if length xs = length ys \<and> ng = ng' \<and> nt = nt'
      then Inr (A3 ng nt (map2 (map2 (map2 f)) xs ys)) else Inl ValueError)"
| "nd_map2 f (A4 nm ng nt xs) (A4 nm' ng' nt' ys) =
     (if length xs = length ys \<and> nm = nm' \<and> ng = ng' \<and> nt = nt'
      then Inr (A4 nm ng nt (map2 (map2 (map2 (map2 f))) xs ys)) else Inl ValueError)"
| "nd_map2 f a b = Inl ValueError"

text \<open>An array times a scalar, and an array divided by a scalar.\<close>

definition nd_scale :: "real \<Rightarrow> ndarray \<Rightarrow> ndarray" where
  "nd_scale k a = nd_map (\<lambda>x. k * x) a"

definition nd_div :: "ndarray \<Rightarrow> real \<Rightarrow> ndarray" where
  "nd_div a k = nd_map (\<lambda>x. x / k) a"

text \<open>An array plus a scalar.\<close>

definition nd_shift :: "ndarray \<Rightarrow> real \<Rightarrow> ndarray" where
  "nd_shift a k = nd_map (\<lambda>x. x + k) a"

fun nd_from1 :: "ndarray \<Rightarrow> ndarray" where
  "nd_from1 (A1 xs) = A1 (drop 1 xs)"
| "nd_from1 (A2 m rows) = A2 m (drop 1 rows)"
| "nd_from1 (A3 ng nt rows) = A3 ng nt (drop 1 rows)"
| "nd_from1 (A4 nm ng nt rows) = A4 nm ng nt (drop 1 rows)"

fun nd_to_m1 :: "ndarray \<Rightarrow> ndarray" where
  "nd_to_m1 (A1 xs) = A1 (butlast xs)"
| "nd_to_m1 (A2 m rows) = A2 m (butlast rows)"
| "nd_to_m1 (A3 ng nt rows) = A3 ng nt (butlast rows)"
| "nd_to_m1 (A4 nm ng nt rows) = A4 nm ng nt (butlast rows)"



section \<open>The 3-D profile loader: \<^verbatim>\<open>get_profile_3d\<close>\<close>

text \<open>
  An HDF5 file: the \<^verbatim>\<open>header\<close> attribute, and the groups in the order of \<^verbatim>\<open>keys()\<close>,
  each with its datasets in the order of its \<^verbatim>\<open>keys()\<close>. A dataset is a table of two
  dimensions: its number of columns and its rows.
\<close>

type_synonym dataset = "nat \<times> real list list"

record h5file =
  h5_header :: string
  h5_groups :: "(string \<times> (string \<times> dataset) list) list"

text \<open>
  \<^verbatim>\<open>h5py.File(name)\<close>: the library cannot open \<^verbatim>\<open>None\<close> (it raises while encoding the
  file name); reading a named file is a parameter.
\<close>

definition h5py_File :: "(string \<Rightarrow> py_error + h5file) \<Rightarrow> string option \<Rightarrow> py_error + h5file" where
  "h5py_File h5open name = (case name of None \<Rightarrow> Inl TypeError | Some path \<Rightarrow> h5open path)"

text \<open>\<^verbatim>\<open>h5db[gname]\<close> and \<^verbatim>\<open>group[tname]\<close>\<close>

definition h5_group :: "h5file \<Rightarrow> string \<Rightarrow> py_error + (string \<times> dataset) list" where
  "h5_group h5db gname = dict_get (map_of (h5_groups h5db)) gname"

definition h5_dataset :: "(string \<times> dataset) list \<Rightarrow> string \<Rightarrow> py_error + dataset" where
  "h5_dataset grp tname = dict_get (map_of grp) tname"

text \<open>\<^verbatim>\<open>data[:,k]\<close> and \<^verbatim>\<open>data[:,ks]\<close> for a list of column indices\<close>

definition column :: "dataset \<Rightarrow> nat \<Rightarrow> py_error + real list" where
  "column d k = (if k < fst d then Inr (map (\<lambda>row. row ! k) (snd d)) else Inl IndexError)"

definition columns :: "dataset \<Rightarrow> nat list \<Rightarrow> py_error + ndarray" where
  "columns d ks =
     (if list_all (\<lambda>k. k < fst d) ks
      then Inr (A2 (length ks) (map (\<lambda>row. map (\<lambda>k. row ! k) ks) (snd d)))
      else Inl IndexError)"

text \<open>\<^verbatim>\<open>s.split(',')\<close>: \<open>split_from w s\<close> carries the word in progress.\<close>

fun split_from :: "string \<Rightarrow> string \<Rightarrow> string list" where
  "split_from w [] = [w]"
| "split_from w (c # cs) =
     (if c = CHR '','' then w # split_from [] cs else split_from (w @ [c]) cs)"

definition split_comma :: "string \<Rightarrow> string list" where
  "split_comma s = split_from [] s"

text \<open>\<^verbatim>\<open>np.where(name == np.array(header))[0][0]\<close>: the first place of \<open>name\<close>.\<close>

fun where_first :: "string \<Rightarrow> string list \<Rightarrow> py_error + nat" where
  "where_first name [] = Inl IndexError"
| "where_first name (h # hs) =
     (if name = h then Inr 0 else ebind (where_first name hs) (\<lambda>k. Inr (Suc k)))"

text \<open>\<^verbatim>\<open>xs.pop(k)\<close>, keeping the list that remains\<close>

definition pop :: "'a list \<Rightarrow> nat \<Rightarrow> py_error + 'a list" where
  "pop xs k = (if k < length xs then Inr (take k xs @ drop (Suc k) xs) else Inl IndexError)"

text \<open>
  The local variables of the double loop. \<^verbatim>\<open>ielec\<close> is bound only when the header has
  \<^verbatim>\<open>'e-'\<close>; \<^verbatim>\<open>itemp\<close> and \<^verbatim>\<open>ipress\<close> are bound on the first pass.
\<close>

record locals3d =
  loc_first :: bool
  loc_electron :: bool
  loc_ielec :: "nat option"
  loc_itemp :: "nat option"
  loc_ipress :: "nat option"
  loc_iheader :: "nat list"

text \<open>A local variable that may be unbound.\<close>

definition local_get :: "'a option \<Rightarrow> string \<Rightarrow> py_error + 'a" where
  "local_get a name = (case a of None \<Rightarrow> Inl (UnboundLocalError name) | Some v \<Rightarrow> Inr v)"

text \<open>
  \<^verbatim>\<open>for i in iheader\<close>: the weight of column \<open>i\<close> of the header joins \<^verbatim>\<open>self.weights\<close>, its
  name joins \<^verbatim>\<open>self.molecules\<close>. Nothing catches an exception of \<^verbatim>\<open>get_weights\<close> here.
\<close>

definition registry_step ::
  "(string \<rightharpoonup> real) \<Rightarrow> string list \<Rightarrow> atmsetup \<Rightarrow> nat \<Rightarrow> py_error + atmsetup" where
  "registry_step ele header s i =
     ebind (list_get header i) (\<lambda>name.
     ebind (get_weights ele [name]) (\<lambda>w.
     ebind (dict_get w name) (\<lambda>mass.
     ebind (attr_get (weights s) ''weights'') (\<lambda>wts.
     ebind (attr_get (molecules s) ''molecules'') (\<lambda>ms.
       Inr (s\<lparr>weights := Some (AList.update name mass wts),
              molecules := Some (ms @ [name])\<rparr>))))))"

text \<open>
  The block under \<^verbatim>\<open>if first\<close>: the places of temperature and pressure, the three
  \<^verbatim>\<open>pop\<close>s on \<^verbatim>\<open>iheader\<close> (each on the list the one before left), the mixing-ratio
  arrays, and the registry.
\<close>

definition first_pass ::
  "(string \<rightharpoonup> real) \<Rightarrow> string list \<Rightarrow> int \<Rightarrow> locals3d \<times> atmsetup \<Rightarrow>
   py_error + locals3d \<times> atmsetup" where
  "first_pass ele header nlevel ls =
     (let loc = fst ls; s = snd ls in
      ebind (where_first ''temperature'' header) (\<lambda>itemp.
      ebind (where_first ''pressure'' header) (\<lambda>ipress.
      ebind (local_get (loc_ielec loc) ''ielec'') (\<lambda>ielec.
      ebind (pop (loc_iheader loc) ielec) (\<lambda>ih1.
      ebind (pop ih1 itemp) (\<lambda>ih2.
      ebind (pop ih2 ipress) (\<lambda>iheader.
      ebind (np_zeros4 nlevel (length iheader) (c_ngangle s) (c_ntangle s)) (\<lambda>level_mix.
      ebind (np_zeros4 (nlevel - 1) (length iheader) (c_ngangle s) (c_ntangle s)) (\<lambda>layer_mix.
      ebind (for_loop (registry_step ele header)
               (s\<lparr>level := (level s)(''mixingratios'' \<mapsto> level_mix),
                  layer := (layer s)(''mixingratios'' \<mapsto> layer_mix),
                  weights := Some [], molecules := Some []\<rparr>) iheader) (\<lambda>s'.
        Inr (loc\<lparr>loc_first := False, loc_itemp := Some itemp, loc_ipress := Some ipress,
                 loc_iheader := iheader\<rparr>, s')))))))))))"

text \<open>
  \<^verbatim>\<open>self.level[key][:,g,t] = v\<close> followed by
  \<^verbatim>\<open>self.layer[key][:,g,t] = 0.5*(self.level[key][1:,g,t] + self.level[key][:-1,g,t])\<close>,
  or with \<^verbatim>\<open>np.sqrt\<close> of the product for the pressure. The slice of a slice is taken
  through \<open>slice_gt\<close>.
\<close>

definition slice_vector :: "ndarray \<Rightarrow> nat \<Rightarrow> nat \<Rightarrow> py_error + real list" where
  "slice_vector a g t =
     ebind (slice_gt a g t) (\<lambda>b. case b of A1 xs \<Rightarrow> Inr xs | _ \<Rightarrow> Inl ValueError)"

definition fill_facet ::
  "(real list \<Rightarrow> real list) \<Rightarrow> string \<Rightarrow> nat \<Rightarrow> nat \<Rightarrow> real list \<Rightarrow> atmsetup \<Rightarrow>
   py_error + atmsetup" where
  "fill_facet derive key g t v s =
     ebind (dict_get (level s) key) (\<lambda>lev.
     ebind (assign_gt lev g t v) (\<lambda>lev'.
     ebind (slice_vector lev' g t) (\<lambda>x.
     ebind (dict_get (layer s) key) (\<lambda>lay.
     ebind (assign_gt lay g t (derive x)) (\<lambda>lay'.
       Inr (s\<lparr>level := (level s)(key \<mapsto> lev'), layer := (layer s)(key \<mapsto> lay')\<rparr>))))))"

text \<open>The same for the mixing ratios, on \<^verbatim>\<open>[:,:,g,t]\<close>.\<close>

definition fill_facet_mix :: "nat \<Rightarrow> nat \<Rightarrow> ndarray \<Rightarrow> atmsetup \<Rightarrow> py_error + atmsetup" where
  "fill_facet_mix g t v s =
     ebind (dict_get (level s) ''mixingratios'') (\<lambda>lev.
     ebind (assign_mgt lev g t v) (\<lambda>lev'.
     ebind (slice_mgt lev' g t) (\<lambda>x.
     ebind (dict_get (layer s) ''mixingratios'') (\<lambda>lay.
     ebind (case x of A2 m rows \<Rightarrow> assign_mgt lay g t (A2 m (mean_rows_1_m1 rows))
                    | _ \<Rightarrow> Inl ValueError) (\<lambda>lay'.
       Inr (s\<lparr>level := (level s)(''mixingratios'' \<mapsto> lev'),
              layer := (layer s)(''mixingratios'' \<mapsto> lay')\<rparr>))))))"

text \<open>The body of the double loop for facet \<open>(g, t)\<close>.\<close>

definition facet_step ::
  "(string \<rightharpoonup> real) \<Rightarrow> h5file \<Rightarrow> string list \<Rightarrow> int \<Rightarrow> locals3d \<times> atmsetup \<Rightarrow> nat \<times> nat \<Rightarrow>
   py_error + locals3d \<times> atmsetup" where
  "facet_step ele h5db header nlevel ls gt =
     (let g = fst gt; t = snd gt in
      ebind (if loc_first (fst ls) then first_pass ele header nlevel ls else Inr ls) (\<lambda>ls1.
      (let loc = fst ls1; s1 = snd ls1 in
      ebind (attr_get (gangles s1) ''gangles'') (\<lambda>gs.
      ebind (list_get gs g) (\<lambda>gname.
      ebind (h5_group h5db gname) (\<lambda>grp.
      ebind (attr_get (tangles s1) ''tangles'') (\<lambda>ts.
      ebind (list_get ts t) (\<lambda>tname.
      ebind (h5_dataset grp tname) (\<lambda>data.
      ebind (if loc_electron loc then
               ebind (local_get (loc_ielec loc) ''ielec'') (\<lambda>ielec.
               ebind (column data ielec) (\<lambda>v. fill_facet mean_1_m1 ''electrons'' g t v s1))
             else Inr s1) (\<lambda>s2.
      ebind (local_get (loc_itemp loc) ''itemp'') (\<lambda>itemp.
      ebind (column data itemp) (\<lambda>vt.
      ebind (fill_facet mean_1_m1 ''temperature'' g t vt s2) (\<lambda>s3.
      ebind (local_get (loc_ipress loc) ''ipress'') (\<lambda>ipress.
      ebind (column data ipress) (\<lambda>vp.
      ebind (fill_facet sqrt_1_m1 ''pressure'' g t (map (\<lambda>p. p * c_pconv s3) vp) s3) (\<lambda>s4.
      ebind (columns data (loc_iheader loc)) (\<lambda>vm.
      ebind (fill_facet_mix g t vm s4) (\<lambda>s5.
        Inr (loc, s5)))))))))))))))))))"

text \<open>\<^verbatim>\<open>for g in range(ngangle): for t in range(ntangle)\<close>\<close>

definition facets :: "nat \<Rightarrow> nat \<Rightarrow> (nat \<times> nat) list" where
  "facets ng nt = concat (map (\<lambda>g. map (\<lambda>t. (g, t)) [0..<nt]) [0..<ng])"

text \<open>
  The block under \<^verbatim>\<open>if 'e-' in header\<close>, and the first values of the locals of the
  loop.
\<close>

definition allocate_electrons ::
  "string list \<Rightarrow> int \<Rightarrow> atmsetup \<Rightarrow> py_error + locals3d \<times> atmsetup" where
  "allocate_electrons header nlevel s =
     (if ''e-'' \<in> set header then
        ebind (np_zeros3 nlevel (c_ngangle s) (c_ntangle s)) (\<lambda>level_electrons.
        ebind (np_zeros3 (nlevel - 1) (c_ngangle s) (c_ntangle s)) (\<lambda>layer_electrons.
        ebind (where_first ''e-'' header) (\<lambda>ielec.
          Inr (\<lparr>loc_first = True, loc_electron = True, loc_ielec = Some ielec,
                loc_itemp = None, loc_ipress = None, loc_iheader = [0..<length header]\<rparr>,
               s\<lparr>level := (level s)(''electrons'' \<mapsto> level_electrons),
                 layer := (layer s)(''electrons'' \<mapsto> layer_electrons)\<rparr>))))
      else Inr (\<lparr>loc_first = True, loc_electron = False, loc_ielec = None,
                 loc_itemp = None, loc_ipress = None, loc_iheader = [0..<length header]\<rparr>, s))"

text \<open>
  The lines before the double loop: the angle names, the number of levels from the first
  dataset, the constants, and the zero-filled temperature and pressure tensors.
\<close>

definition allocate_3d ::
  "h5file \<Rightarrow> string list \<Rightarrow> atmsetup \<Rightarrow> py_error + int \<times> locals3d \<times> atmsetup" where
  "allocate_3d h5db header s =
     (let gs = map fst (h5_groups h5db); ng = c_ngangle s; nt = c_ntangle s in
      ebind (list_get gs 0) (\<lambda>g0.
      ebind (h5_group h5db g0) (\<lambda>grp0.
      (let ts = map fst grp0 in
      ebind (list_get ts 0) (\<lambda>t0.
      ebind (h5_dataset grp0 t0) (\<lambda>d0.
      (let nlevel = int (length (snd d0)) in
      ebind (np_zeros3 nlevel ng nt) (\<lambda>level_temperature.
      ebind (np_zeros3 nlevel ng nt) (\<lambda>level_pressure.
      ebind (np_zeros3 (nlevel - 1) ng nt) (\<lambda>layer_temperature.
      ebind (np_zeros3 (nlevel - 1) ng nt) (\<lambda>layer_pressure.
      ebind (allocate_electrons header nlevel
               (s\<lparr>gangles := Some gs, tangles := Some ts,
                  c_nlevel := Some nlevel, c_nlayer := Some (nlevel - 1),
                  level := (level s)(''temperature'' \<mapsto> level_temperature,
                                      ''pressure'' \<mapsto> level_pressure),
                  layer := (layer s)(''temperature'' \<mapsto> layer_temperature,
                                      ''pressure'' \<mapsto> layer_pressure)\<rparr>)) (\<lambda>ls.
        Inr (nlevel, ls)))))))))))))"

definition get_profile_3d ::
  "(string \<rightharpoonup> real) \<Rightarrow> (string \<Rightarrow> py_error + h5file) \<Rightarrow> atmosphere_input \<Rightarrow> atmsetup \<Rightarrow>
   py_error + atmsetup" where
  "get_profile_3d ele h5open chemistry_input s0 =
     (let s = s0\<lparr>dimension := Some ''3d''\<rparr> in
      ebind (h5py_File h5open (profile_filepath chemistry_input)) (\<lambda>h5db.
      (let header = split_comma (h5_header h5db) in
      ebind (allocate_3d h5db header s) (\<lambda>nls.
      ebind (for_loop (facet_step ele h5db header (fst nls)) (snd nls)
               (facets (c_ngangle s) (c_ntangle s))) (\<lambda>ls'.
        Inr (snd ls'))))))"

section \<open>Physical derivations\<close>




definition get_density :: "atmsetup \<Rightarrow> py_error + atmsetup" where
  "get_density s =
     ebind (dict_get (level s) ''pressure'') (\<lambda>pressure.
     ebind (dict_get (level s) ''temperature'') (\<lambda>temperature.
     ebind (nd_map2 (/) pressure (nd_scale (c_k_b s) temperature)) (\<lambda>den.
       Inr (s\<lparr>level := (level s)(''den'' \<mapsto> den)\<rparr>))))"

definition get_column_density :: "atmsetup \<Rightarrow> py_error + atmsetup" where
  "get_column_density s =
     ebind (dict_get (level s) ''pressure'') (\<lambda>pressure.
     ebind (nd_map2 (-) (nd_from1 pressure) (nd_to_m1 pressure)) (\<lambda>diff.
     ebind (attr_get (planet_gravity s) ''gravity'') (\<lambda>gravity.
       Inr (s\<lparr>layer := (layer s)(''colden'' \<mapsto> nd_div diff gravity)\<rparr>))))"

text \<open>
  \<^verbatim>\<open>get_gravity\<close>: the conversions to cgs units are astropy's and are parameters, with
  the gravitational constant.
\<close>

record planet_input =
  planet_gravity_value :: "real option"
  planet_mass :: "real option"
  planet_radius :: "real option"

definition get_gravity ::
  "real \<Rightarrow> (real \<Rightarrow> real) \<Rightarrow> (real \<Rightarrow> real) \<Rightarrow> (real \<Rightarrow> real) \<Rightarrow> planet_input \<Rightarrow> atmsetup \<Rightarrow>
   py_error + atmsetup" where
  "get_gravity G to_cm_s2 to_g to_cm planet s =
     (case planet_gravity_value planet of
        Some gv \<Rightarrow> Inr (s\<lparr>planet_gravity := Some (to_cm_s2 gv)\<rparr>)
      | None \<Rightarrow>
          if planet_mass planet \<noteq> None \<and> planet_radius planet \<noteq> None then
            Inr (s\<lparr>planet_gravity :=
              Some (G * to_g (the (planet_mass planet)) / (to_cm (the (planet_radius planet)))\<^sup>2)\<rparr>)
          else Inl (Exception ''Need to specify gravity or radius and mass + additional units''))"

section \<open>The cloud loader: \<^verbatim>\<open>get_clouds\<close>\<close>

text \<open>
  What the method takes from outside the class: the cloud wavenumber grid
  (\<^verbatim>\<open>get_cld_input_grid\<close>) and the regridder of \<^verbatim>\<open>wavelength.py\<close>, the file system, pandas
  and h5py.
\<close>

record cloud_io =
  get_cld_input_grid :: "string option \<Rightarrow> py_error + real list"
  regrid :: "real list list \<Rightarrow> real list \<Rightarrow> real list \<Rightarrow> py_error + ndarray"
  os_path_exists :: "string \<Rightarrow> bool"
  pd_read_csv :: "string \<Rightarrow> py_error + table"
  h5py_open :: "string \<Rightarrow> py_error + h5file"

text \<open>\<^verbatim>\<open>cld_input.shape[0]\<close>: the rows of a DataFrame.\<close>

fun table_nrows :: "table \<Rightarrow> py_error + nat" where
  "table_nrows (DataFrame n cols) = Inr n"
| "table_nrows (Dict cols) = Inl (AttributeError ''shape'')"

text \<open>\<^verbatim>\<open>assert cond, msg\<close>\<close>

definition py_assert :: "bool \<Rightarrow> string \<Rightarrow> py_error + unit" where
  "py_assert cond msg = (if cond then Inr () else Inl (AssertionError msg))"

text \<open>
  \<^verbatim>\<open>np.reshape(values, (nlayer, npts))\<close> for values already counted as
  \<open>nlayer * npts\<close>: the rows are consecutive runs of \<open>npts\<close> values. A negative \<open>nlayer\<close>
  asks numpy to infer a dimension, which it cannot do here.
\<close>

definition np_reshape :: "real list \<Rightarrow> int \<Rightarrow> nat \<Rightarrow> py_error + real list list" where
  "np_reshape vals nlayer npts =
     (if nlayer < 0 \<or> int (length vals) \<noteq> nlayer * int npts then Inl ValueError
      else Inr (map (\<lambda>r. take npts (drop (r * npts) vals)) [0..<nat nlayer]))"

text \<open>One cloud property of the 1-D file: reshape the named column, then regrid.\<close>

definition cloud_column_1d ::
  "cloud_io \<Rightarrow> table \<Rightarrow> string \<Rightarrow> int \<Rightarrow> real list \<Rightarrow> real list \<Rightarrow> py_error + ndarray" where
  "cloud_column_1d io cld_input key nlayer input_wno wno =
     ebind (table_get cld_input key) (\<lambda>vals.
     ebind (np_reshape vals nlayer (length input_wno)) (\<lambda>m.
       regrid io m input_wno wno))"

text \<open>One cloud property of one facet of the 3-D file, written into its tensor.\<close>

definition cloud_column_3d ::
  "cloud_io \<Rightarrow> dataset \<Rightarrow> nat \<Rightarrow> int \<Rightarrow> real list \<Rightarrow> real list \<Rightarrow> ndarray \<Rightarrow> nat \<Rightarrow> nat \<Rightarrow>
   py_error + ndarray" where
  "cloud_column_3d io data k nlayer input_wno wno tensor g t =
     ebind (column data k) (\<lambda>vals.
     ebind (np_reshape vals nlayer (length input_wno)) (\<lambda>lowres.
     ebind (regrid io lowres input_wno wno) (\<lambda>v.
       assign_mgt tensor g t v)))"

text \<open>
  The local tensors \<^verbatim>\<open>opd\<close>, \<^verbatim>\<open>g0\<close> and \<^verbatim>\<open>w0\<close> of the 3-D branch; each pass rebinds
  \<^verbatim>\<open>self.layer['cloud']\<close> to a new dict of the three.
\<close>

record cloud_tensors =
  t_opd :: ndarray
  t_g0 :: ndarray
  t_w0 :: ndarray

definition cloud_facet_step ::
  "cloud_io \<Rightarrow> h5file \<Rightarrow> nat \<Rightarrow> nat \<Rightarrow> nat \<Rightarrow> real list \<Rightarrow> real list \<Rightarrow>
   cloud_tensors \<times> atmsetup \<Rightarrow> nat \<times> nat \<Rightarrow> py_error + cloud_tensors \<times> atmsetup" where
  "cloud_facet_step io cld_input iopd ig0 iw0 input_wno wno cs gt =
     (let tens = fst cs; s = snd cs; g = fst gt; t = snd gt in
      ebind (attr_get (gangles s) ''gangles'') (\<lambda>gs.
      ebind (list_get gs g) (\<lambda>gname.
      ebind (h5_group cld_input gname) (\<lambda>grp.
      ebind (attr_get (tangles s) ''tangles'') (\<lambda>ts.
      ebind (list_get ts t) (\<lambda>tname.
      ebind (h5_dataset grp tname) (\<lambda>data.
      ebind (attr_get (c_nlayer s) ''nlayer'') (\<lambda>nlayer.
      ebind (py_assert (int (length (snd data)) = nlayer * int (length input_wno))
               ''Cloud input file is not on the same grid as the input PT/Angles profile:'') (\<lambda>_.
      ebind (cloud_column_3d io data iopd nlayer input_wno wno (t_opd tens) g t) (\<lambda>opd.
      ebind (cloud_column_3d io data ig0 nlayer input_wno wno (t_g0 tens) g t) (\<lambda>g0.
      ebind (cloud_column_3d io data iw0 nlayer input_wno wno (t_w0 tens) g t) (\<lambda>w0.
        Inr (\<lparr>t_opd = opd, t_g0 = g0, t_w0 = w0\<rparr>,
             s\<lparr>layer_cloud := Some [''opd'' \<mapsto> opd, ''g0'' \<mapsto> g0, ''w0'' \<mapsto> w0]\<rparr>)))))))))))))"

text \<open>The branch \<^verbatim>\<open>elif self.dimension=='3d'\<close>.\<close>

definition get_clouds_3d ::
  "cloud_io \<Rightarrow> atmosphere_input \<Rightarrow> real list \<Rightarrow> real list \<Rightarrow> atmsetup \<Rightarrow> py_error + atmsetup" where
  "get_clouds_3d io input input_wno wno s =
     ebind (h5py_File (h5py_open io) (clouds_filepath input)) (\<lambda>cld_input.
     ebind (attr_get (c_nlayer s) ''nlayer'') (\<lambda>nlayer.
     ebind (np_zeros4 nlayer (length wno) (c_ngangle s) (c_ntangle s)) (\<lambda>opd.
     ebind (np_zeros4 nlayer (length wno) (c_ngangle s) (c_ntangle s)) (\<lambda>g0.
     ebind (np_zeros4 nlayer (length wno) (c_ngangle s) (c_ntangle s)) (\<lambda>w0.
     (let header = split_comma (h5_header cld_input) in
     ebind (py_assert (''g0'' \<in> set header)
              ''Please make sure g0 is a named column in hdf5 cld file'') (\<lambda>_.
     ebind (py_assert (''w0'' \<in> set header)
              ''Please make sure w0 is a named column in hdf5 cld file'') (\<lambda>_.
     ebind (py_assert (''opd'' \<in> set header)
              ''Please make sure opd is a named column in hdf5 cld file'') (\<lambda>_.
     ebind (where_first ''opd'' header) (\<lambda>iopd.
     ebind (where_first ''g0'' header) (\<lambda>ig0.
     ebind (where_first ''w0'' header) (\<lambda>iw0.
     ebind (for_loop (cloud_facet_step io cld_input iopd ig0 iw0 input_wno wno)
              (\<lparr>t_opd = opd, t_g0 = g0, t_w0 = w0\<rparr>, s)
              (facets (c_ngangle s) (c_ntangle s))) (\<lambda>cs.
       Inr (snd cs))))))))))))))"

text \<open>The branch for a 1-D cloud file.\<close>

definition get_clouds_file ::
  "cloud_io \<Rightarrow> string \<Rightarrow> real list \<Rightarrow> real list \<Rightarrow> atmsetup \<Rightarrow> py_error + atmsetup" where
  "get_clouds_file io path input_wno wno s =
     (if os_path_exists io path then
        ebind (pd_read_csv io path) (\<lambda>cld_input.
        ebind (table_nrows cld_input) (\<lambda>nrows.
        ebind (attr_get (c_nlayer s) ''nlayer'') (\<lambda>nlayer.
        ebind (py_assert (int nrows = nlayer * int (length input_wno))
                 ''Cloud input file is not on the same grid as the input PT profile:'') (\<lambda>_.
        ebind (py_assert (''g0'' \<in> set (table_keys cld_input))
                 ''Please make sure g0 is a named column in cld file'') (\<lambda>_.
        ebind (py_assert (''w0'' \<in> set (table_keys cld_input))
                 ''Please make sure w0 is a named column in cld file'') (\<lambda>_.
        ebind (py_assert (''opd'' \<in> set (table_keys cld_input))
                 ''Please make sure opd is a named column in cld file'') (\<lambda>_.
        ebind (cloud_column_1d io cld_input ''opd'' nlayer input_wno wno) (\<lambda>opd.
        ebind (cloud_column_1d io cld_input ''g0'' nlayer input_wno wno) (\<lambda>g0.
        ebind (cloud_column_1d io cld_input ''w0'' nlayer input_wno wno) (\<lambda>w0.
          Inr (s\<lparr>layer_cloud := Some [''opd'' \<mapsto> opd, ''g0'' \<mapsto> g0, ''w0'' \<mapsto> w0]\<rparr>)))))))))))
      else Inl (Exception
        ''Cld file specified does not exist. Replace with None or find real file''))"

text \<open>The two 1-D branches without a file: zero clouds, with or without flat scattering.\<close>

definition get_clouds_zeros :: "real list \<Rightarrow> atmsetup \<Rightarrow> py_error + ndarray" where
  "get_clouds_zeros wno s =
     ebind (attr_get (c_nlayer s) ''nlayer'') (\<lambda>nlayer. np_zeros2 nlayer (length wno))"

definition get_clouds ::
  "cloud_io \<Rightarrow> atmosphere_input \<Rightarrow> real list \<Rightarrow> atmsetup \<Rightarrow> py_error + atmsetup" where
  "get_clouds io input wno s0 =
     ebind (get_cld_input_grid io (clouds_wavenumber input)) (\<lambda>input_wno.
     (let s = s0\<lparr>c_output_npts_wave := Some (length wno),
                 c_input_npts_wave := Some (length input_wno)\<rparr> in
     ebind (attr_get (dimension s) ''dimension'') (\<lambda>dim.
       if clouds_filepath input \<noteq> None \<and> dim = ''1d'' then
         get_clouds_file io (the (clouds_filepath input)) input_wno wno s
       else if clouds_filepath input = None \<and> scattering_g0 input = None \<and> dim = ''1d'' then
         ebind (get_clouds_zeros wno s) (\<lambda>zeros.
           Inr (s\<lparr>layer_cloud := Some [''w0'' \<mapsto> zeros, ''g0'' \<mapsto> zeros, ''opd'' \<mapsto> zeros]\<rparr>))
       else if clouds_filepath input = None \<and> scattering_g0 input \<noteq> None \<and> dim = ''1d'' then
         ebind (get_clouds_zeros wno s) (\<lambda>zeros.
         ebind (case scattering_w0 input of
                  None \<Rightarrow> Inl TypeError
                | Some w0 \<Rightarrow> Inr (nd_shift zeros w0)) (\<lambda>sw0.
           Inr (s\<lparr>layer_scattering :=
                    Some [''w0'' \<mapsto> sw0,
                          ''g0'' \<mapsto> nd_shift zeros (the (scattering_g0 input))],
                  layer_cloud := Some [''w0'' \<mapsto> zeros, ''g0'' \<mapsto> zeros, ''opd'' \<mapsto> zeros]\<rparr>)))
       else if dim = ''3d'' then get_clouds_3d io input input_wno wno s
       else Inl (Exception ''CLD input not recognized. Either input a filepath, or input None''))))"

section \<open>The column disaggregator: \<^verbatim>\<open>disect\<close>\<close>

text \<open>One assignment \<^verbatim>\<open>d[key] = d[key][:,g,t]\<close> (or \<^verbatim>\<open>[:,:,g,t]\<close>) on a dict of arrays.\<close>

definition project ::
  "(ndarray \<Rightarrow> nat \<Rightarrow> nat \<Rightarrow> py_error + ndarray) \<Rightarrow> string \<Rightarrow> nat \<Rightarrow> nat \<Rightarrow>
   (string \<rightharpoonup> ndarray) \<Rightarrow> py_error + (string \<rightharpoonup> ndarray)" where
  "project slice key g t d =
     ebind (dict_get d key) (\<lambda>a.
     ebind (slice a g t) (\<lambda>b. Inr (d(key \<mapsto> b))))"

definition disect :: "atmsetup \<Rightarrow> nat \<Rightarrow> nat \<Rightarrow> py_error + atmsetup" where
  "disect s g t =
     ebind (project slice_gt ''temperature'' g t (level s)) (\<lambda>level1.
     ebind (project slice_gt ''pressure'' g t level1) (\<lambda>level2.
     ebind (project slice_gt ''temperature'' g t (layer s)) (\<lambda>layer1.
     ebind (project slice_gt ''pressure'' g t layer1) (\<lambda>layer2.
     ebind (project slice_gt ''mmw'' g t layer2) (\<lambda>layer3.
     ebind (project slice_mgt ''mixingratios'' g t layer3) (\<lambda>layer4.
     ebind (project slice_gt ''colden'' g t layer4) (\<lambda>layer5.
     ebind (project slice_gt ''electrons'' g t layer5) (\<lambda>layer6.
     ebind (case layer_cloud s of None \<Rightarrow> Inl (KeyError ''cloud'') | Some c \<Rightarrow> Inr c) (\<lambda>cloud0.
     ebind (project slice_mgt ''opd'' g t cloud0) (\<lambda>cloud1.
     ebind (project slice_mgt ''g0'' g t cloud1) (\<lambda>cloud2.
     ebind (project slice_mgt ''w0'' g t cloud2) (\<lambda>cloud3.
       Inr (s\<lparr>level := level2, layer := layer6, layer_cloud := Some cloud3\<rparr>)))))))))))))"

section \<open>The specification's reading of the operations\<close>

subsection \<open>Formula masses\<close>

text \<open>
  The tokenizer as the specification words it: an uppercase letter starts a new element
  token, lowercase letters extend the current element symbol, and a run of digits is the
  multiplicity of the most recently started element, 1 when there is none. A token is a
  symbol with its digit run.
\<close>

definition isdigit :: "char \<Rightarrow> bool" where
  "isdigit c = (let n = (of_char c :: nat) in 48 \<le> n \<and> n \<le> 57)"

fun formula_tokens :: "(string \<times> string) list \<Rightarrow> string \<Rightarrow> (string \<times> string) list" where
  "formula_tokens toks [] = toks"
| "formula_tokens toks (c # cs) =
     (if isupper c then formula_tokens (toks @ [([c], [])]) cs
      else if toks = [] then formula_tokens toks cs
      else if islower c then
        formula_tokens (butlast toks @ [(fst (last toks) @ [c], snd (last toks))]) cs
      else if isdigit c then
        formula_tokens (butlast toks @ [(fst (last toks), snd (last toks) @ [c])]) cs
      else formula_tokens toks cs)"

definition multiplicity :: "string \<Rightarrow> nat" where
  "multiplicity digits =
     (if digits = [] then 1 else foldl (\<lambda>n d. 10 * n + (of_char d - 48)) 0 digits)"

fun tokens_mass :: "(string \<rightharpoonup> real) \<Rightarrow> (string \<times> string) list \<Rightarrow> real option" where
  "tokens_mass ele [] = Some 0"
| "tokens_mass ele (tk # toks) =
     (case ele (fst tk) of
        None \<Rightarrow> None
      | Some mass \<Rightarrow>
          (case tokens_mass ele toks of
             None \<Rightarrow> None
           | Some rest \<Rightarrow> Some (mass * real (multiplicity (snd tk)) + rest)))"

definition formula_mass :: "(string \<rightharpoonup> real) \<Rightarrow> string \<Rightarrow> real option" where
  "formula_mass ele formula = tokens_mass ele (formula_tokens [] formula)"

subsection \<open>Levels and layers\<close>









subsection \<open>The scan of the columns\<close>

text \<open>
  The scan without an explicit list, in the words of the specification: every column other
  than temperature and pressure whose weight resolves is a molecule; on a failure the
  column \<open>e-\<close> is the electron column, and any other column is skipped with a recorded
  warning.
\<close>

definition is_molecule :: "(string \<rightharpoonup> real) \<Rightarrow> string \<Rightarrow> bool" where
  "is_molecule ele k \<longleftrightarrow>
     k \<noteq> ''pressure'' \<and> k \<noteq> ''temperature'' \<and> try_weight ele k \<noteq> None"

definition is_ignored :: "(string \<rightharpoonup> real) \<Rightarrow> string \<Rightarrow> bool" where
  "is_ignored ele k \<longleftrightarrow>
     k \<noteq> ''pressure'' \<and> k \<noteq> ''temperature'' \<and> try_weight ele k = None \<and> k \<noteq> ''e-''"

definition ignoring_warning :: "string \<Rightarrow> string" where
  "ignoring_warning k = ''Ignoring '' @ k @ '' in input file, not recognized molecule''"

subsection \<open>The continuum rule table\<close>

text \<open>
  Each rule of the table: the species that must be present, whether free electrons must be
  present, and the pair it adds.
\<close>

definition continuum_rules :: "(string list \<times> bool \<times> string \<times> string) list" where
  "continuum_rules =
     [([''H2''], False, (''H2'', ''H2'')),
      ([''H2'', ''He''], False, (''H2'', ''He'')),
      ([''H2'', ''N2''], False, (''H2'', ''N2'')),
      ([''H2'', ''H''], False, (''H2'', ''H'')),
      ([''H2'', ''CH4''], False, (''H2'', ''CH4'')),
      ([''H-''], False, (''H-'', ''bf'')),
      ([''H''], True, (''H-'', ''ff'')),
      ([''H2''], True, (''H2'', ''H2-''))]"

definition rule_pairs :: "string list \<Rightarrow> bool \<Rightarrow> (string \<times> string) list" where
  "rule_pairs ms electrons =
     map (\<lambda>(req, e, pair). pair)
       (filter (\<lambda>(req, e, pair). list_all (\<lambda>m. m \<in> set ms) req \<and> (e \<longrightarrow> electrons))
          continuum_rules)"

text \<open>The species handled only through continuum pairs.\<close>

definition continuum_only :: "string list" where
  "continuum_only = [''H'', ''H2-'', ''H2'', ''H-'', ''He'', ''N2'', ''H+'']"

section \<open>Invariants of the loaders\<close>






section \<open>Example inputs\<close>

definition ex_ele :: "string \<rightharpoonup> real" where
  "ex_ele = [''H'' \<mapsto> 1, ''He'' \<mapsto> 4, ''C'' \<mapsto> 12, ''O'' \<mapsto> 16]"

definition ex_read_csv :: "string \<Rightarrow> py_error + table" where
  "ex_read_csv path = Inl (Exception ''no such file'')"

text \<open>A fresh instance on a 1 by 1 angular grid.\<close>

definition ex_init :: atmsetup where
  "ex_init = init 1 1 1"

text \<open>A composition table without temperature and pressure, and numeric \<^verbatim>\<open>PT\<close> entries.\<close>

definition ex_mix_table :: table where
  "ex_mix_table = DataFrame 2 [(''H2'', [3, 3]), (''He'', [1, 1])]"

definition ex_input_PT :: atmosphere_input where
  "ex_input_PT =
     \<lparr> profile_type = ''user'', profile_filepath = None,
       profile_profile = Some ex_mix_table, molecules_whichones = None,
       PT_T = Some 1000, PT_logg1 = Some 1, PT_logKir = Some 1, PT_logPc = Some 1,
       clouds_filepath = None, clouds_wavenumber = None,
       scattering_g0 = None, scattering_w0 = None \<rparr>"

text \<open>Registries with and without electrons.\<close>

definition ex_H2_He_H :: atmsetup where
  "ex_H2_He_H =
     ex_init\<lparr>molecules := Some [''H2'', ''He'', ''H''],
             level := [''electrons'' \<mapsto> A1 [1, 1]]\<rparr>"

definition ex_H2O :: atmsetup where
  "ex_H2O = ex_init\<lparr>molecules := Some [''H2O'']\<rparr>"

definition ex_Hplus :: atmsetup where
  "ex_Hplus = ex_init\<lparr>molecules := Some [''H2O'', ''H+'']\<rparr>"



definition ex_input :: "table \<Rightarrow> atmosphere_input" where
  "ex_input read =
     \<lparr> profile_type = ''user'', profile_filepath = None,
       profile_profile = Some read, molecules_whichones = None,
       PT_T = None, PT_logg1 = None, PT_logKir = None, PT_logPc = None,
       clouds_filepath = None, clouds_wavenumber = None,
       scattering_g0 = None, scattering_w0 = None \<rparr>"

text \<open>
  A table with a column whose name is a number, and a column that names no element.
\<close>

definition ex_table_2018 :: table where
  "ex_table_2018 = DataFrame 2
     [(''pressure'', [1, 4]), (''temperature'', [100, 200]),
      (''H2'', [3, 3]), (''2018'', [7, 7]), (''Zz'', [5, 5])]"


text \<open>
  HDF5 profiles with one facet of two levels: with the header in the order pressure,
  temperature, electrons, molecules; with temperature before pressure and two molecules;
  and without an electron column.
\<close>

definition ex_h5 :: h5file where
  "ex_h5 = \<lparr> h5_header = ''pressure,temperature,e-,H2'',
             h5_groups = [(''g0'', [(''t0'', (4, [[1, 100, 0, 3], [4, 200, 2, 3]]))])] \<rparr>"

definition ex_h5_temperature_first :: h5file where
  "ex_h5_temperature_first =
     \<lparr> h5_header = ''temperature,pressure,e-,H2,He'',
       h5_groups = [(''g0'', [(''t0'', (5, [[100, 1, 0, 3, 1], [200, 4, 2, 3, 1]]))])] \<rparr>"

definition ex_h5_no_electrons :: h5file where
  "ex_h5_no_electrons =
     \<lparr> h5_header = ''pressure,temperature,H2'',
       h5_groups = [(''g0'', [(''t0'', (3, [[1, 100, 3], [4, 200, 3]]))])] \<rparr>"

definition ex_h5open :: "h5file \<Rightarrow> string \<Rightarrow> py_error + h5file" where
  "ex_h5open h5db path = Inr h5db"

definition ex_input_3d :: atmosphere_input where
  "ex_input_3d =
     \<lparr> profile_type = ''user'', profile_filepath = Some ''profile.hdf5'',
       profile_profile = None, molecules_whichones = None,
       PT_T = None, PT_logg1 = None, PT_logKir = None, PT_logPc = None,
       clouds_filepath = None, clouds_wavenumber = None,
       scattering_g0 = None, scattering_w0 = None \<rparr>"

text \<open>The instance after \<^verbatim>\<open>get_profile_3d\<close> has read the first of these files.\<close>

definition ex_state_3d :: atmsetup where
  "ex_state_3d =
     ex_init\<lparr>dimension := Some ''3d'', gangles := Some [''g0''], tangles := Some [''t0''],
        c_nlevel := Some 2, c_nlayer := Some 1,
        level := [''temperature'' \<mapsto> A3 1 1 [[[100]], [[200]]],
                  ''pressure'' \<mapsto> A3 1 1 [[[1000000]], [[4000000]]],
                  ''electrons'' \<mapsto> A3 1 1 [[[0]], [[2]]],
                  ''mixingratios'' \<mapsto> A4 1 1 1 [[[[3]]], [[[3]]]]],
        layer := [''temperature'' \<mapsto> A3 1 1 [[[150]]], ''pressure'' \<mapsto> A3 1 1 [[[2000000]]],
                  ''electrons'' \<mapsto> A3 1 1 [[[1]]], ''mixingratios'' \<mapsto> A4 1 1 1 [[[[3]]]]],
        weights := Some [(''H2'', 2)], molecules := Some [''H2'']\<rparr>"

text \<open>What the cloud loader takes from outside, with a grid of two wavenumbers.\<close>

definition ex_cloud_io :: cloud_io where
  "ex_cloud_io =
     \<lparr> get_cld_input_grid = (\<lambda>wavenumber. Inr [1, 2]),
       regrid = (\<lambda>matrix input_wno wno. Inl (Exception ''no regridding'')),
       os_path_exists = (\<lambda>path. False),
       pd_read_csv = ex_read_csv,
       h5py_open = ex_h5open ex_h5 \<rparr>"




section \<open>Sequencing, slices and assignments\<close>

lemma ebind_Inr: "ebind m f = Inr y \<longleftrightarrow> (\<exists>x. m = Inr x \<and> f x = Inr y)"
  by (cases m) (simp_all add: ebind_def)

lemma ebind_simps [simp]: "ebind (Inl e) f = Inl e" "ebind (Inr x) f = f x"
  by (simp_all add: ebind_def)








lemma assign_gt_A3:
  assumes "assign_gt (A3 ng nt rows) g t v = Inr a" "length v = length rows"
  shows "a = A3 ng nt (map2 (\<lambda>row x. row[g := (row ! g)[t := x]]) rows v) \<and> g < ng \<and> t < nt"
  using assms by (auto simp: broadcast1_def split: if_splits)












section \<open>The 3-D loader: the invariant of the double loop\<close>





















section \<open>The 1-D loader: levels and layers\<close>




















section \<open>The mean molecular weight\<close>








section \<open>Molecular weights\<close>

lemma molecule_list_step_non_alpha:
  assumes "\<not> isupper c" "\<not> islower c" "\<forall>t\<in>set ml. \<exists>v. t = Num v"
  shows "\<exists>ml'. molecule_list_step ml j c = Inr ml' \<and> (\<forall>t\<in>set ml'. \<exists>v. t = Num v)"
  using assms by (auto simp: molecule_list_step_def split: option.splits)

lemma molecule_list_loop_non_alpha:
  assumes "\<forall>c\<in>set i. \<not> isupper c \<and> \<not> islower c" "\<forall>t\<in>set ml. \<exists>v. t = Num v"
  shows "\<exists>ml'. molecule_list_loop ml j i = Inr ml' \<and> (\<forall>t\<in>set ml'. \<exists>v. t = Num v)"
  using assms
proof (induction i arbitrary: ml j)
  case Nil
  then show ?case by simp
next
  case (Cons c cs)
  from Cons.prems obtain ml1 where step: "molecule_list_step ml j c = Inr ml1"
    and nums: "\<forall>t\<in>set ml1. \<exists>v. t = Num v"
    using molecule_list_step_non_alpha[of c ml j] by auto
  from Cons.IH[OF _ nums, of "Suc j"] Cons.prems(1) step show ?case by simp
qed

lemma totmass_loop_all_Num:
  assumes "\<forall>t\<in>set ml. \<exists>v. t = Num v"
  shows "totmass_loop ele ml j totmass = Inr totmass"
  using assms
proof (induction ele ml j totmass rule: totmass_loop.induct)
  case (1 ele ml j totmass)
  show ?case
  proof (cases "j < length ml")
    case True
    then obtain v where v: "ml ! j = Num v"
      using "1.prems" nth_mem by blast
    with True "1.IH"(1)[OF True v "1.prems"] show ?thesis
      by (subst totmass_loop.simps) simp
  next
    case False
    then show ?thesis by (subst totmass_loop.simps) simp
  qed
qed

lemma molecule_weight_non_alpha:
  assumes "\<forall>c\<in>set i. \<not> isupper c \<and> \<not> islower c"
  shows "molecule_weight ele i = Inr 0"
proof -
  obtain ml where "molecule_list_loop [] 0 i = Inr ml" "\<forall>t\<in>set ml. \<exists>v. t = Num v"
    using molecule_list_loop_non_alpha[OF assms, of "[]" 0] by auto
  then show ?thesis
    by (simp add: molecule_weight_def totmass_loop_all_Num)
qed

lemma get_weights_single:
  "get_weights ele [i] =
     (case molecule_weight ele i of Inl e \<Rightarrow> Inl e | Inr m \<Rightarrow> Inr [i \<mapsto> m])"
  by (simp add: get_weights_def split: sum.splits)

lemma try_weight_molecule_weight:
  "try_weight ele i = (case molecule_weight ele i of Inl e \<Rightarrow> None | Inr m \<Rightarrow> Some m)"
  by (simp add: try_weight_def get_weights_single split: sum.splits)

lemma molecule_list_C10H22:
  "molecule_list_loop [] 0 ''C10H22'' =
     Inr [Sym ''C'', Num 1, Num 0, Sym ''H'', Num 2, Num 2]"
  by (simp add: molecule_list_step_def float_char_def isupper_def islower_def)

lemma formula_tokens_C10H22:
  "formula_tokens [] ''C10H22'' = [(''C'', ''10''), (''H'', ''22'')]"
  by (simp add: isupper_def islower_def isdigit_def)

text \<open>
  C1. The claim: the mass \<^verbatim>\<open>get_weights\<close> returns for an accepted formula is the sum of
  element masses times multiplicities, a multi-digit run of digits being one multiplicity.
  On the decane formula \<^verbatim>\<open>C10H22\<close> the source appends every digit to \<^verbatim>\<open>molecule_list\<close> as
  a float of its own and reads only the entry after a symbol, so it returns
  \<open>mass C + 2 * mass H\<close>, where the specification's tokens give \<open>10 * mass C + 22 * mass H\<close>.
\<close>

theorem get_weights_reads_first_digit_only:
  assumes "ele ''C'' = Some mC" and "ele ''H'' = Some mH"
  shows "get_weights ele [''C10H22''] = Inr [''C10H22'' \<mapsto> mC + 2 * mH] \<and>
         formula_mass ele ''C10H22'' = Some (10 * mC + 22 * mH)"
proof -
  have "totmass_loop ele [Sym ''C'', Num 1, Num 0, Sym ''H'', Num 2, Num 2] 0 0 =
          Inr (mC + 2 * mH)"
    using assms by (simp add: totmass_loop.simps count_after_def)
  then have "molecule_weight ele ''C10H22'' = Inr (mC + 2 * mH)"
    unfolding molecule_weight_def molecule_list_C10H22 by simp
  moreover have "formula_mass ele ''C10H22'' = Some (10 * mC + 22 * mH)"
    unfolding formula_mass_def formula_tokens_C10H22
    using assms by (simp add: multiplicity_def)
  ultimately show ?thesis
    by (simp add: get_weights_single)
qed

theorem get_weights_reads_first_digit_only_witness:
  "ex_ele ''C'' = Some 12 \<and> ex_ele ''H'' = Some 1 \<and>
   get_weights ex_ele [''C10H22''] = Inr [''C10H22'' \<mapsto> 14] \<and>
   formula_mass ex_ele ''C10H22'' = Some 142"
proof -
  have c: "ex_ele ''C'' = Some 12" and h: "ex_ele ''H'' = Some 1"
    by (simp_all add: ex_ele_def)
  from get_weights_reads_first_digit_only[OF c h] c h show ?thesis by simp
qed

section \<open>The 1-D loader: the scan of the columns\<close>

lemma table_get_key:
  assumes "k \<in> set (table_keys read)"
  shows "\<exists>col. table_get read k = Inr col"
proof -
  from assms have "k \<in> fst ` set (table_columns read)" by (simp add: table_keys_def)
  then have "map_of (table_columns read) k \<noteq> None" by (simp add: map_of_eq_None_iff)
  then show ?thesis by (auto simp: table_get_def)
qed

lemma column_step_cases:
  assumes "molecules s = Some ms" "k = ''e-'' \<longrightarrow> (\<exists>col. table_get read ''e-'' = Inr col)"
  shows "\<exists>wts' s'. column_step ele read (wts, s) k = Inr (wts', s') \<and>
     molecules s' = Some (ms @ filter (is_molecule ele) [k]) \<and>
     warnings s' = warnings s @ map ignoring_warning (filter (is_ignored ele) [k]) \<and>
     map_of wts' = (if is_molecule ele k then (map_of wts)(k \<mapsto> the (try_weight ele k)) else map_of wts)"
proof (cases "k = ''pressure'' \<or> k = ''temperature''")
  case True
  with assms(1) show ?thesis
    by (auto simp: column_step_def is_molecule_def is_ignored_def)
next
  case pt: False
  show ?thesis
  proof (cases "try_weight ele k")
    case (Some m)
    with pt assms(1) show ?thesis
      by (auto simp: column_step_def is_molecule_def is_ignored_def update_conv')
  next
    case None
    show ?thesis
    proof (cases "k = ''e-''")
      case True
      with assms(2) obtain col where "table_get read ''e-'' = Inr col" by blast
      with True None pt assms(1) show ?thesis
        by (simp add: column_step_def is_molecule_def is_ignored_def set_electrons_def)
    next
      case False
      with None pt assms(1) show ?thesis
        by (simp add: column_step_def is_molecule_def is_ignored_def add_warnings_def
            ignoring_warning_def)
    qed
  qed
qed

lemma column_loop_result:
  assumes "molecules s = Some ms" "''e-'' \<in> set keys \<longrightarrow> (\<exists>col. table_get read ''e-'' = Inr col)"
  shows "\<exists>wts' s'. for_loop (column_step ele read) (wts, s) keys = Inr (wts', s') \<and>
     molecules s' = Some (ms @ filter (is_molecule ele) keys) \<and>
     warnings s' = warnings s @ map ignoring_warning (filter (is_ignored ele) keys) \<and>
     map_of wts' = (\<lambda>k. if k \<in> set keys \<and> is_molecule ele k then try_weight ele k else map_of wts k)"
  using assms
proof (induction keys arbitrary: wts s ms)
  case Nil
  then show ?case by simp
next
  case (Cons k keys)
  from Cons.prems have e: "k = ''e-'' \<longrightarrow> (\<exists>col. table_get read ''e-'' = Inr col)" by auto
  from column_step_cases[OF Cons.prems(1) e, of ele wts] obtain wts1 s1 where
    st: "column_step ele read (wts, s) k = Inr (wts1, s1)" and
    m1: "molecules s1 = Some (ms @ filter (is_molecule ele) [k])" and
    w1: "warnings s1 = warnings s @ map ignoring_warning (filter (is_ignored ele) [k])" and
    mo: "map_of wts1 = (if is_molecule ele k then (map_of wts)(k \<mapsto> the (try_weight ele k)) else map_of wts)"
    by blast
  from Cons.prems(2) have e': "''e-'' \<in> set keys \<longrightarrow> (\<exists>col. table_get read ''e-'' = Inr col)" by simp
  from Cons.IH[OF m1 e', of wts1] obtain wts' s' where
    l: "for_loop (column_step ele read) (wts1, s1) keys = Inr (wts', s')" and
    m2: "molecules s' = Some ((ms @ filter (is_molecule ele) [k]) @ filter (is_molecule ele) keys)" and
    w2: "warnings s' = warnings s1 @ map ignoring_warning (filter (is_ignored ele) keys)" and
    mo2: "map_of wts' = (\<lambda>k. if k \<in> set keys \<and> is_molecule ele k then try_weight ele k else map_of wts1 k)"
    by blast
  have mo3: "map_of wts' = (\<lambda>x. if x \<in> set (k # keys) \<and> is_molecule ele x then try_weight ele x else map_of wts x)"
    unfolding mo2 mo by (auto simp: fun_eq_iff is_molecule_def)
  have fl: "for_loop (column_step ele read) (wts, s) (k # keys) = Inr (wts', s')"
    using st l by simp
  have m3: "molecules s' = Some (ms @ filter (is_molecule ele) (k # keys))"
    using m2 by simp
  have w3: "warnings s' = warnings s @ map ignoring_warning (filter (is_ignored ele) (k # keys))"
    using w1 w2 by simp
  from fl m3 w3 mo3 show ?case by blast
qed


lemma ignoring_warning_inj: "ignoring_warning a = ignoring_warning b \<Longrightarrow> a = b"
  by (simp add: ignoring_warning_def)

lemma non_alpha_is_molecule:
  assumes "\<forall>c\<in>set i. \<not> isupper c \<and> \<not> islower c"
  shows "try_weight ele i = Some 0" "is_molecule ele i" "\<not> is_ignored ele i"
proof -
  have w: "molecule_weight ele i = Inr 0"
    using assms by (rule molecule_weight_non_alpha)
  then show t: "try_weight ele i = Some 0"
    by (simp add: try_weight_molecule_weight)
  have "i \<noteq> ''pressure''" "i \<noteq> ''temperature''"
    using assms by (auto simp: islower_def)
  with t show "is_molecule ele i" "\<not> is_ignored ele i"
    by (simp_all add: is_molecule_def is_ignored_def)
qed

lemma scan_result:
  assumes "molecules_whichones chemistry_input = None"
  shows "\<exists>wts s'. get_profile_molecules ele chemistry_input read s = Inr (wts, s') \<and>
     molecules s' = Some (filter (is_molecule ele) (table_keys read)) \<and>
     warnings s' = warnings s @ map ignoring_warning (filter (is_ignored ele) (table_keys read)) \<and>
     map_of wts = (\<lambda>k. if k \<in> set (table_keys read) \<and> is_molecule ele k then try_weight ele k else None)"
proof -
  have m: "molecules (s\<lparr>molecules := Some []\<rparr>) = Some []" by simp
  have e: "''e-'' \<in> set (table_keys read) \<longrightarrow> (\<exists>col. table_get read ''e-'' = Inr col)"
    using table_get_key by blast
  from column_loop_result[OF m e, of ele "[]"] obtain wts s' where
    l: "for_loop (column_step ele read) ([], s\<lparr>molecules := Some []\<rparr>) (table_keys read) = Inr (wts, s')"
       "molecules s' = Some ([] @ filter (is_molecule ele) (table_keys read))"
       "warnings s' = warnings (s\<lparr>molecules := Some []\<rparr>) @
          map ignoring_warning (filter (is_ignored ele) (table_keys read))"
       "map_of wts = (\<lambda>k. if k \<in> set (table_keys read) \<and> is_molecule ele k
                            then try_weight ele k else map_of [] k)"
    by blast
  have "get_profile_molecules ele chemistry_input read s = Inr (wts, s')"
    using assms l(1) by (simp add: get_profile_molecules_def)
  moreover have "molecules s' = Some (filter (is_molecule ele) (table_keys read))"
    using l(2) by simp
  moreover have "warnings s' = warnings s @ map ignoring_warning (filter (is_ignored ele) (table_keys read))"
    using l(3) by simp
  moreover have "map_of wts = (\<lambda>k. if k \<in> set (table_keys read) \<and> is_molecule ele k then try_weight ele k else None)"
    using l(4) by (simp cong: if_cong)
  ultimately show ?thesis by blast
qed

lemma as_matrix_total:
  assumes "set keys \<subseteq> set (map fst cols)"
  shows "\<exists>rows. as_matrix (DataFrame n cols) keys = Inr (A2 (length keys) rows) \<and> length rows = n"
proof -
  have "map_of cols k \<noteq> None" if "k \<in> set keys" for k
    using that assms by (auto simp: map_of_eq_None_iff)
  then have "filter (\<lambda>k. map_of cols k = None) keys = []"
    by (simp add: filter_empty_conv)
  then show ?thesis by simp
qed

lemma get_profile_PT_total:
  assumes "''temperature'' \<in> set (table_keys read)" "''pressure'' \<in> set (table_keys read)"
  shows "\<exists>s'. get_profile_PT chemistry_input read s = Inr s' \<and>
     molecules s' = molecules s \<and> warnings s' = warnings s \<and> weights s' = weights s"
proof -
  from table_get_key[OF assms(1)] obtain T where T: "table_get read ''temperature'' = Inr T" by blast
  from table_get_key[OF assms(2)] obtain P where P: "table_get read ''pressure'' = Inr P" by blast
  from assms T P show ?thesis by (simp add: get_profile_PT_def Let_def)
qed


text \<open>Weights of the example names, and the example tables read by the loader.\<close>

lemma ex_try_weight_H2: "try_weight ex_ele ''H2'' = Some 2"
  by (simp add: try_weight_molecule_weight molecule_weight_def molecule_list_step_def
      float_char_def isupper_def islower_def totmass_loop.simps count_after_def ex_ele_def)

lemma ex_try_weight_He: "try_weight ex_ele ''He'' = Some 4"
  by (simp add: try_weight_molecule_weight molecule_weight_def molecule_list_step_def
      float_char_def isupper_def islower_def py_index_def totmass_loop.simps count_after_def
      ex_ele_def)

lemma ex_try_weight_Zz: "try_weight ex_ele ''Zz'' = None"
  by (simp add: try_weight_molecule_weight molecule_weight_def molecule_list_step_def
      float_char_def isupper_def islower_def py_index_def totmass_loop.simps count_after_def
      ex_ele_def)

lemma ex_try_weight_2018: "try_weight ex_ele ''2018'' = Some 0"
  by (rule non_alpha_is_molecule(1)) (simp add: isupper_def islower_def)


lemma ex_sqrt: "sqrt 4000000000000 = 2000000"
  by (rule real_sqrt_unique) simp_all


lemma ex_means:
  "mean_1_m1 [0, 2] = [1]" "mean_1_m1 [100, 200] = [150]"
  "sqrt_1_m1 [1000000, 4000000] = [2000000]"
  "mean_rows_1_m1 [[3, 1], [3, 1]] = [[3, 1]]"
  by (simp_all add: mean_1_m1_def sqrt_1_m1_def mean_rows_1_m1_def np_scale_def np_add_def
      np_sqrt_def np_mul_def ex_sqrt)




lemma ex_table_2018_get:
  "table_get ex_table_2018 ''temperature'' = Inr [100, 200]"
  "table_get ex_table_2018 ''pressure'' = Inr [1, 4]"
  "table_keys ex_table_2018 = [''pressure'', ''temperature'', ''H2'', ''2018'', ''Zz'']"
  by (simp_all add: table_get_def table_keys_def ex_table_2018_def)

lemma ex_table_2018_molecules:
  "get_profile_molecules ex_ele (ex_input ex_table_2018) ex_table_2018 s =
     Inr ([(''H2'', 2), (''2018'', 0)],
          s\<lparr>molecules := Some [''H2'', ''2018''],
            warnings := warnings s @ [''Ignoring Zz in input file, not recognized molecule'']\<rparr>)"
  by (simp add: get_profile_molecules_def ex_input_def ex_table_2018_get column_step_def
      ex_try_weight_H2 ex_try_weight_2018 ex_try_weight_Zz add_warnings_def)

lemma ex_table_2018_matrix:
  "as_matrix ex_table_2018 [''H2'', ''2018''] = Inr (A2 2 [[3, 7], [3, 7]])"
  by (simp add: ex_table_2018_def upt_rec)

lemma ex_means_2018: "mean_rows_1_m1 [[3, 7], [3, 7]] = [[3, 7]]"
  by (simp add: mean_rows_1_m1_def np_scale_def np_add_def)


text \<open>
  C10. A column name of ASCII characters without any letter (the empty string, digits
  only) has molar mass 0: \<^verbatim>\<open>get_weights\<close> returns 0 for it without raising. The scan
  over the columns of the table, which always completes, registers every such column as a
  molecule of mass 0 and records no warning for it; and so does \<^verbatim>\<open>get_profile\<close> as a
  whole, on a DataFrame with temperature and pressure columns.
\<close>

theorem column_without_letters_is_scanned_as_molecule_of_mass_0:
  assumes "ascii i" and "\<forall>c\<in>set i. \<not> isupper c \<and> \<not> islower c"
    and "molecules_whichones chemistry_input = None"
    and "i \<in> set (table_keys read)"
  shows "get_weights ele [i] = Inr [i \<mapsto> 0] \<and>
     (\<exists>wts s'. get_profile_molecules ele chemistry_input read s = Inr (wts, s') \<and>
        map_of wts i = Some 0 \<and>
        molecules s' = Some (filter (is_molecule ele) (table_keys read)) \<and>
        i \<in> set (filter (is_molecule ele) (table_keys read)) \<and>
        warnings s' = warnings s @ map ignoring_warning (filter (is_ignored ele) (table_keys read)) \<and>
        ignoring_warning i \<notin> set (map ignoring_warning (filter (is_ignored ele) (table_keys read)))) \<and>
     (get_profile_read read_csv chemistry_input = Inr read \<and> (\<exists>n cols. read = DataFrame n cols) \<and>
      ''temperature'' \<in> set (table_keys read) \<and> ''pressure'' \<in> set (table_keys read) \<longrightarrow>
      (\<exists>wts s'. get_profile ele read_csv chemistry_input s0 = Inr s' \<and>
         weights s' = Some wts \<and> map_of wts i = Some 0 \<and>
         molecules s' = Some (filter (is_molecule ele) (table_keys read)) \<and>
         warnings s' = warnings s0 @ map ignoring_warning (filter (is_ignored ele) (table_keys read))))"
proof -
  note na = non_alpha_is_molecule[OF assms(2), of ele]
  have w: "molecule_weight ele i = Inr 0"
    using assms(2) by (rule molecule_weight_non_alpha)
  have gw: "get_weights ele [i] = Inr [i \<mapsto> 0]"
    using w by (simp add: get_weights_single)
  have mem: "i \<in> set (filter (is_molecule ele) (table_keys read))"
    using assms(4) na(2) by simp
  have nw: "ignoring_warning i \<notin> set (map ignoring_warning (filter (is_ignored ele) (table_keys read)))"
    using na(3) by (auto dest: ignoring_warning_inj)
  have scan: "\<exists>wts s'. get_profile_molecules ele chemistry_input read s = Inr (wts, s') \<and>
        map_of wts i = Some 0 \<and>
        molecules s' = Some (filter (is_molecule ele) (table_keys read)) \<and>
        warnings s' = warnings s @ map ignoring_warning (filter (is_ignored ele) (table_keys read))" for s
  proof -
    from scan_result[OF assms(3), of ele read s] obtain wts s' where
      r: "get_profile_molecules ele chemistry_input read s = Inr (wts, s')"
         "molecules s' = Some (filter (is_molecule ele) (table_keys read))"
         "warnings s' = warnings s @ map ignoring_warning (filter (is_ignored ele) (table_keys read))" and
      mo: "map_of wts = (\<lambda>k. if k \<in> set (table_keys read) \<and> is_molecule ele k then try_weight ele k else None)"
      by blast
    have "map_of wts i = Some 0"
      unfolding mo using assms(4) na(1,2) by simp
    with r show ?thesis by blast
  qed
  have prof: "\<exists>wts s'. get_profile ele read_csv chemistry_input s0 = Inr s' \<and>
         weights s' = Some wts \<and> map_of wts i = Some 0 \<and>
         molecules s' = Some (filter (is_molecule ele) (table_keys read)) \<and>
         warnings s' = warnings s0 @ map ignoring_warning (filter (is_ignored ele) (table_keys read))"
    if rd: "get_profile_read read_csv chemistry_input = Inr read"
      and df: "\<exists>n cols. read = DataFrame n cols"
      and T: "''temperature'' \<in> set (table_keys read)" and P: "''pressure'' \<in> set (table_keys read)"
  proof -
    from scan_result[OF assms(3), of ele read "s0\<lparr>dimension := Some ''1d''\<rparr>"] obtain wts s1 where
      r: "get_profile_molecules ele chemistry_input read (s0\<lparr>dimension := Some ''1d''\<rparr>) = Inr (wts, s1)" and
      m1: "molecules s1 = Some (filter (is_molecule ele) (table_keys read))" and
      w1: "warnings s1 = warnings s0 @ map ignoring_warning (filter (is_ignored ele) (table_keys read))" and
      mo: "map_of wts = (\<lambda>k. if k \<in> set (table_keys read) \<and> is_molecule ele k then try_weight ele k else None)"
      by auto
    have wi: "map_of wts i = Some 0"
      unfolding mo using assms(4) na(1,2) by simp
    from df obtain n cols where read: "read = DataFrame n cols" by blast
    have "set (map fst wts) = dom (map_of wts)"
      by (simp add: dom_map_of_conv_image_fst)
    also have "\<dots> \<subseteq> set (table_keys read)"
      unfolding mo by (auto simp: dom_def split: if_splits)
    finally have "set (map fst wts) \<subseteq> set (map fst cols)"
      by (simp add: read table_keys_def)
    from as_matrix_total[OF this, of n] obtain rows where
      am: "as_matrix read (map fst wts) = Inr (A2 (length (map fst wts)) rows)"
      unfolding read by blast
    define s2 where "s2 = s1\<lparr>level := (level s1)(''mixingratios'' \<mapsto> A2 (length (map fst wts)) rows),
                       layer := (layer s1)(''mixingratios'' \<mapsto> A2 (length (map fst wts)) (mean_rows_1_m1 rows)),
                       weights := Some wts\<rparr>"
    from get_profile_PT_total[OF T P, of chemistry_input s2] obtain s3 where
      pt: "get_profile_PT chemistry_input read s2 = Inr s3" and
      s3: "molecules s3 = molecules s2" "warnings s3 = warnings s2" "weights s3 = weights s2"
      by blast
    have "get_profile ele read_csv chemistry_input s0 =
            Inr (s3\<lparr>c_nlevel := Some (int (length rows)), c_nlayer := Some (int (length rows) - 1)\<rparr>)"
      using rd r am pt unfolding s2_def by (simp add: get_profile_def Let_def)
    moreover have "weights s3 = Some wts" "molecules s3 = molecules s1" "warnings s3 = warnings s1"
      using s3 by (simp_all add: s2_def)
    ultimately show ?thesis using wi m1 w1 by simp
  qed
  from gw scan[of s] mem nw prof show ?thesis by blast
qed


theorem column_without_letters_is_scanned_as_molecule_of_mass_0_witness:
  "ascii ''2018'' \<and> ''2018'' \<in> set (table_keys ex_table_2018) \<and>
   molecules_whichones (ex_input ex_table_2018) = None \<and>
   get_weights ex_ele [''2018''] = Inr [''2018'' \<mapsto> 0] \<and>
   get_profile_molecules ex_ele (ex_input ex_table_2018) ex_table_2018
       (ex_init\<lparr>dimension := Some ''1d''\<rparr>) =
     Inr ([(''H2'', 2), (''2018'', 0)],
          ex_init\<lparr>dimension := Some ''1d'', molecules := Some [''H2'', ''2018''],
            warnings := [''Ignoring Zz in input file, not recognized molecule'']\<rparr>) \<and>
   get_profile ex_ele ex_read_csv (ex_input ex_table_2018) ex_init =
     Inr (ex_init\<lparr>dimension := Some ''1d'', molecules := Some [''H2'', ''2018''],
            warnings := [''Ignoring Zz in input file, not recognized molecule''],
            level := [''mixingratios'' \<mapsto> A2 2 [[3, 7], [3, 7]],
                      ''temperature'' \<mapsto> A1 [100, 200], ''pressure'' \<mapsto> A1 [1000000, 4000000]],
            layer := [''mixingratios'' \<mapsto> A2 2 [[3, 7]],
                      ''temperature'' \<mapsto> A1 [150], ''pressure'' \<mapsto> A1 [2000000]],
            weights := Some [(''H2'', 2), (''2018'', 0)],
            c_nlevel := Some 2, c_nlayer := Some 1\<rparr>)"
proof -
  have a: "ascii ''2018''"
    by (simp add: ascii_def)
  have b: "\<forall>c\<in>set ''2018''. \<not> isupper c \<and> \<not> islower c"
    by (simp add: isupper_def islower_def)
  have c: "molecules_whichones (ex_input ex_table_2018) = None"
    by (simp add: ex_input_def)
  have d: "''2018'' \<in> set (table_keys ex_table_2018)"
    by (simp add: ex_table_2018_get)
  from column_without_letters_is_scanned_as_molecule_of_mass_0[OF a b c d, of ex_ele]
  have gw: "get_weights ex_ele [''2018''] = Inr [''2018'' \<mapsto> 0]"
    by blast
  have rd: "get_profile_read ex_read_csv (ex_input ex_table_2018) = Inr ex_table_2018"
    by (simp add: get_profile_read_def ex_input_def)
  have scan: "get_profile_molecules ex_ele (ex_input ex_table_2018) ex_table_2018
       (ex_init\<lparr>dimension := Some ''1d''\<rparr>) =
     Inr ([(''H2'', 2), (''2018'', 0)],
          ex_init\<lparr>dimension := Some ''1d'', molecules := Some [''H2'', ''2018''],
            warnings := [''Ignoring Zz in input file, not recognized molecule'']\<rparr>)"
    by (simp add: ex_table_2018_molecules ex_init_def init_def)
  have prof: "get_profile ex_ele ex_read_csv (ex_input ex_table_2018) ex_init =
     Inr (ex_init\<lparr>dimension := Some ''1d'', molecules := Some [''H2'', ''2018''],
            warnings := [''Ignoring Zz in input file, not recognized molecule''],
            level := [''mixingratios'' \<mapsto> A2 2 [[3, 7], [3, 7]],
                      ''temperature'' \<mapsto> A1 [100, 200], ''pressure'' \<mapsto> A1 [1000000, 4000000]],
            layer := [''mixingratios'' \<mapsto> A2 2 [[3, 7]],
                      ''temperature'' \<mapsto> A1 [150], ''pressure'' \<mapsto> A1 [2000000]],
            weights := Some [(''H2'', 2), (''2018'', 0)],
            c_nlevel := Some 2, c_nlayer := Some 1\<rparr>)"
    unfolding get_profile_def rd
    by (simp add: ex_table_2018_molecules ex_table_2018_matrix get_profile_PT_def
        ex_table_2018_get ex_means ex_means_2018 ex_init_def init_def)
  from a c d gw scan prof show ?thesis by blast
qed

section \<open>The 1-D loader: the temperature and pressure fallback\<close>

text \<open>
  C4. The claim: without temperature or pressure columns and with numeric \<^verbatim>\<open>PT\<close> entries,
  \<^verbatim>\<open>get_profile\<close> fails with the "not implemented" error of the analytic path. The source
  names \<^verbatim>\<open>calc_TP\<close>, which is not defined, in place of the method \<^verbatim>\<open>calc_PT\<close> that
  raises that error: whenever the loader reaches the fallback it fails with
  \<^verbatim>\<open>NameError\<close>.
\<close>

theorem get_profile_PT_fallback_raises_NameError:
  assumes "get_profile_read read_csv chemistry_input = Inr read"
    and "get_profile_molecules ele chemistry_input read (s\<lparr>dimension := Some ''1d''\<rparr>) = Inr (wts, s1)"
    and "as_matrix read (map fst wts) = Inr mixingratios"
    and "''temperature'' \<notin> set (table_keys read) \<or> ''pressure'' \<notin> set (table_keys read)"
    and "PT_T chemistry_input = Some T" and "PT_logg1 chemistry_input = Some logg1"
    and "PT_logKir chemistry_input = Some logKir" and "PT_logPc chemistry_input = Some logPc"
  shows "get_profile ele read_csv chemistry_input s = Inl (NameError ''calc_TP'') \<and>
         calc_PT T logKir logg1 logPc =
           Inl (Exception ''TODO: Temperature parameterization option not included yet'') \<and>
         get_profile ele read_csv chemistry_input s \<noteq>
           Inl (Exception ''TODO: Temperature parameterization option not included yet'')"
proof -
  have pt: "get_profile_PT chemistry_input read s' = Inl (NameError ''calc_TP'')" for s'
    using assms(4-8) by (auto simp: get_profile_PT_def)
  obtain m rows where mix: "mixingratios = A2 m rows"
    using assms(3) by (cases read) (auto split: list.splits)
  have "get_profile ele read_csv chemistry_input s = Inl (NameError ''calc_TP'')"
    using assms(1-3) by (simp add: get_profile_def mix pt)
  then show ?thesis
    by (simp add: calc_PT_def)
qed

lemma ex_mix_table_molecules:
  "get_profile_molecules ex_ele ex_input_PT ex_mix_table s =
     Inr ([(''H2'', 2), (''He'', 4)], s\<lparr>molecules := Some [''H2'', ''He'']\<rparr>)"
  by (simp add: get_profile_molecules_def ex_input_PT_def ex_mix_table_def table_keys_def
      column_step_def ex_try_weight_H2 ex_try_weight_He)

lemma ex_mix_table_matrix:
  "as_matrix ex_mix_table [''H2'', ''He''] = Inr (A2 2 [[3, 1], [3, 1]])"
  by (simp add: ex_mix_table_def upt_rec)

theorem get_profile_PT_fallback_raises_NameError_witness:
  "get_profile ex_ele ex_read_csv ex_input_PT ex_init = Inl (NameError ''calc_TP'') \<and>
   calc_PT 1000 1 1 1 =
     Inl (Exception ''TODO: Temperature parameterization option not included yet'') \<and>
   get_profile ex_ele ex_read_csv ex_input_PT ex_init \<noteq>
     Inl (Exception ''TODO: Temperature parameterization option not included yet'')"
proof -
  have 1: "get_profile_read ex_read_csv ex_input_PT = Inr ex_mix_table"
    by (simp add: get_profile_read_def ex_input_PT_def)
  have 3: "as_matrix ex_mix_table (map fst [(''H2'', 2::real), (''He'', 4)]) =
             Inr (A2 2 [[3, 1], [3, 1]])"
    by (simp add: ex_mix_table_matrix)
  have 4: "''temperature'' \<notin> set (table_keys ex_mix_table) \<or>
           ''pressure'' \<notin> set (table_keys ex_mix_table)"
    by (simp add: table_keys_def ex_mix_table_def)
  have 5: "PT_T ex_input_PT = Some 1000" "PT_logg1 ex_input_PT = Some 1"
    "PT_logKir ex_input_PT = Some 1" "PT_logPc ex_input_PT = Some 1"
    by (simp_all add: ex_input_PT_def)
  show ?thesis
    by (rule get_profile_PT_fallback_raises_NameError
        [OF 1 ex_mix_table_molecules 3 4 5])
qed

section \<open>The 3-D loader: the columns of the header\<close>

text \<open>The loader on the three example files.\<close>

lemma ex_headers:
  "split_comma ''pressure,temperature,e-,H2'' = [''pressure'', ''temperature'', ''e-'', ''H2'']"
  "split_comma ''temperature,pressure,e-,H2,He'' =
     [''temperature'', ''pressure'', ''e-'', ''H2'', ''He'']"
  "split_comma ''pressure,temperature,H2'' = [''pressure'', ''temperature'', ''H2'']"
  by (simp_all add: split_comma_def)

lemma ex_zeros:
  "np_zeros3 2 (Suc 0) (Suc 0) = Inr (A3 (Suc 0) (Suc 0) [[[0]], [[0]]])"
  "np_zeros3 1 (Suc 0) (Suc 0) = Inr (A3 (Suc 0) (Suc 0) [[[0]]])"
  "np_zeros4 2 (Suc 0) (Suc 0) (Suc 0) = Inr (A4 (Suc 0) (Suc 0) (Suc 0) [[[[0]]], [[[0]]]])"
  "np_zeros4 1 (Suc 0) (Suc 0) (Suc 0) = Inr (A4 (Suc 0) (Suc 0) (Suc 0) [[[[0]]]])"
  by (simp_all add: np_zeros3_def np_zeros4_def numeral_2_eq_2)

lemma ex_allocate:
  "allocate_3d ex_h5 [''pressure'', ''temperature'', ''e-'', ''H2''] (ex_init\<lparr>dimension := Some ''3d''\<rparr>) =
     Inr (2, \<lparr>loc_first = True, loc_electron = True, loc_ielec = Some 2,
                loc_itemp = None, loc_ipress = None, loc_iheader = [0, 1, 2, 3]\<rparr>,
          ex_init\<lparr>dimension := Some ''3d'', gangles := Some [''g0''], tangles := Some [''t0''],
             c_nlevel := Some 2, c_nlayer := Some 1,
             level := [''temperature'' \<mapsto> A3 1 1 [[[0]], [[0]]], ''pressure'' \<mapsto> A3 1 1 [[[0]], [[0]]],
                       ''electrons'' \<mapsto> A3 1 1 [[[0]], [[0]]]],
             layer := [''temperature'' \<mapsto> A3 1 1 [[[0]]], ''pressure'' \<mapsto> A3 1 1 [[[0]]],
                       ''electrons'' \<mapsto> A3 1 1 [[[0]]]]\<rparr>)"
  by (simp add: allocate_3d_def allocate_electrons_def ex_h5_def list_get_def h5_group_def
      h5_dataset_def dict_get_def ex_zeros ex_init_def init_def upt_conv_Cons)


lemma ex_get_weights_H2: "get_weights ex_ele [''H2''] = Inr [''H2'' \<mapsto> 2]"
  by (simp add: get_weights_single molecule_weight_def molecule_list_step_def
      float_char_def isupper_def islower_def totmass_loop.simps count_after_def ex_ele_def)

lemma ex_where:
  "where_first ''temperature'' [''pressure'', ''temperature'', ''e-'', ''H2''] = Inr 1"
  "where_first ''pressure'' [''pressure'', ''temperature'', ''e-'', ''H2''] = Inr 0"
  by simp_all

lemma ex_first_pass:
  "first_pass ex_ele [''pressure'', ''temperature'', ''e-'', ''H2''] 2
     (\<lparr>loc_first = True, loc_electron = True, loc_ielec = Some 2,
                loc_itemp = None, loc_ipress = None, loc_iheader = [0, 1, 2, 3]\<rparr>,
          ex_init\<lparr>dimension := Some ''3d'', gangles := Some [''g0''], tangles := Some [''t0''],
             c_nlevel := Some 2, c_nlayer := Some 1,
             level := [''temperature'' \<mapsto> A3 1 1 [[[0]], [[0]]], ''pressure'' \<mapsto> A3 1 1 [[[0]], [[0]]],
                       ''electrons'' \<mapsto> A3 1 1 [[[0]], [[0]]]],
             layer := [''temperature'' \<mapsto> A3 1 1 [[[0]]], ''pressure'' \<mapsto> A3 1 1 [[[0]]],
                       ''electrons'' \<mapsto> A3 1 1 [[[0]]]]\<rparr>) =
   Inr (\<lparr>loc_first = False, loc_electron = True, loc_ielec = Some 2,
                loc_itemp = Some 1, loc_ipress = Some 0, loc_iheader = [3]\<rparr>,
          ex_init\<lparr>dimension := Some ''3d'', gangles := Some [''g0''], tangles := Some [''t0''],
             c_nlevel := Some 2, c_nlayer := Some 1,
             level := [''temperature'' \<mapsto> A3 1 1 [[[0]], [[0]]], ''pressure'' \<mapsto> A3 1 1 [[[0]], [[0]]],
                       ''electrons'' \<mapsto> A3 1 1 [[[0]], [[0]]],
                       ''mixingratios'' \<mapsto> A4 1 1 1 [[[[0]]], [[[0]]]]],
             layer := [''temperature'' \<mapsto> A3 1 1 [[[0]]], ''pressure'' \<mapsto> A3 1 1 [[[0]]],
                       ''electrons'' \<mapsto> A3 1 1 [[[0]]], ''mixingratios'' \<mapsto> A4 1 1 1 [[[[0]]]]],
             weights := Some [(''H2'', 2)], molecules := Some [''H2'']\<rparr>)"
  unfolding first_pass_def Let_def
  by (simp add: ex_where local_get_def pop_def ex_zeros registry_step_def list_get_def
      ex_get_weights_H2 dict_get_def attr_get_def ex_init_def init_def)


lemma ex_columns:
  "column (4, [[1, 100, 0, 3], [4, 200, 2, 3]]) 2 = Inr [0, 2]"
  "column (4, [[1, 100, 0, 3], [4, 200, 2, 3]]) (Suc 0) = Inr [100, 200]"
  "column (4, [[1, 100, 0, 3], [4, 200, 2, 3]]) 0 = Inr [1, 4]"
  "columns (4, [[1, 100, 0, 3], [4, 200, 2, 3]]) [3] = Inr (A2 1 [[3], [3]])"
  by (simp_all add: column_def columns_def)

lemma ex_means3:
  "mean_1_m1 [0, 2] = [1]" "mean_1_m1 [100, 200] = [150]"
  "sqrt_1_m1 [1000000, 4000000] = [2000000]"
  "mean_rows_1_m1 [[3], [3]] = [[3]]"
  by (simp_all add: mean_1_m1_def sqrt_1_m1_def mean_rows_1_m1_def np_scale_def np_add_def
      np_sqrt_def np_mul_def ex_sqrt)


lemma ex_facet_step:
  "facet_step ex_ele ex_h5 [''pressure'', ''temperature'', ''e-'', ''H2''] 2
     (\<lparr>loc_first = True, loc_electron = True, loc_ielec = Some 2,
                loc_itemp = None, loc_ipress = None, loc_iheader = [0, 1, 2, 3]\<rparr>,
          ex_init\<lparr>dimension := Some ''3d'', gangles := Some [''g0''], tangles := Some [''t0''],
             c_nlevel := Some 2, c_nlayer := Some 1,
             level := [''temperature'' \<mapsto> A3 1 1 [[[0]], [[0]]], ''pressure'' \<mapsto> A3 1 1 [[[0]], [[0]]],
                       ''electrons'' \<mapsto> A3 1 1 [[[0]], [[0]]]],
             layer := [''temperature'' \<mapsto> A3 1 1 [[[0]]], ''pressure'' \<mapsto> A3 1 1 [[[0]]],
                       ''electrons'' \<mapsto> A3 1 1 [[[0]]]]\<rparr>) (0, 0) =
   Inr (\<lparr>loc_first = False, loc_electron = True, loc_ielec = Some 2,
                loc_itemp = Some 1, loc_ipress = Some 0, loc_iheader = [3]\<rparr>,
          ex_init\<lparr>dimension := Some ''3d'', gangles := Some [''g0''], tangles := Some [''t0''],
             c_nlevel := Some 2, c_nlayer := Some 1,
             level := [''temperature'' \<mapsto> A3 1 1 [[[100]], [[200]]],
                       ''pressure'' \<mapsto> A3 1 1 [[[1000000]], [[4000000]]],
                       ''electrons'' \<mapsto> A3 1 1 [[[0]], [[2]]],
                       ''mixingratios'' \<mapsto> A4 1 1 1 [[[[3]]], [[[3]]]]],
             layer := [''temperature'' \<mapsto> A3 1 1 [[[150]]], ''pressure'' \<mapsto> A3 1 1 [[[2000000]]],
                       ''electrons'' \<mapsto> A3 1 1 [[[1]]], ''mixingratios'' \<mapsto> A4 1 1 1 [[[[3]]]]],
             weights := Some [(''H2'', 2)], molecules := Some [''H2'']\<rparr>)"
  unfolding facet_step_def Let_def fst_conv snd_conv
  apply (simp only: locals3d.simps if_True ex_first_pass ebind_simps fst_conv snd_conv)
  apply (simp add: attr_get_def list_get_def h5_group_def h5_dataset_def ex_h5_def dict_get_def
      local_get_def ex_columns fill_facet_def fill_facet_mix_def broadcast1_def broadcast2_def
      slice_vector_def ex_means3 ex_init_def init_def fun_eq_iff)
  done


lemma ex_h5_profile:
  "get_profile_3d ex_ele (ex_h5open ex_h5) ex_input_3d ex_init = Inr ex_state_3d"
proof -
  have h: "split_comma (h5_header ex_h5) = [''pressure'', ''temperature'', ''e-'', ''H2'']"
    by (simp add: ex_h5_def ex_headers)
  have f: "facets (c_ngangle (ex_init\<lparr>dimension := Some ''3d''\<rparr>))
             (c_ntangle (ex_init\<lparr>dimension := Some ''3d''\<rparr>)) = [(0, 0)]"
    by (simp add: facets_def ex_init_def init_def)
  show ?thesis
    unfolding get_profile_3d_def Let_def f
    by (simp add: h5py_File_def ex_input_3d_def ex_h5open_def h ex_allocate ex_facet_step
        ex_state_3d_def del: One_nat_def)
qed

lemma ex_get_weights_pressure: "get_weights ele [''pressure''] = Inl IndexError"
  by (simp add: get_weights_single molecule_weight_def molecule_list_step_def
      float_char_def isupper_def islower_def py_index_def)

lemma ex_h5_temperature_first_profile:
  "get_profile_3d ex_ele (ex_h5open ex_h5_temperature_first) ex_input_3d ex_init =
     Inl IndexError"
proof -
  have h: "split_comma (h5_header ex_h5_temperature_first) =
             [''temperature'', ''pressure'', ''e-'', ''H2'', ''He'']"
    by (simp add: ex_h5_temperature_first_def ex_headers)
  have f: "facets (c_ngangle (ex_init\<lparr>dimension := Some ''3d''\<rparr>))
             (c_ntangle (ex_init\<lparr>dimension := Some ''3d''\<rparr>)) = [(0, 0)]"
    by (simp add: facets_def ex_init_def init_def)
  show ?thesis
    unfolding get_profile_3d_def Let_def f
    by (simp add: h5py_File_def ex_input_3d_def ex_h5open_def ex_headers allocate_3d_def
        allocate_electrons_def ex_h5_temperature_first_def list_get_def h5_group_def
        h5_dataset_def dict_get_def np_zeros3_def np_zeros4_def ex_init_def init_def facet_step_def
        first_pass_def local_get_def pop_def registry_step_def ex_get_weights_pressure
        upt_conv_Cons)
qed

lemma where_first_mem:
  assumes "name \<in> set header"
  shows "\<exists>k. where_first name header = Inr k"
  using assms by (induction header) auto

lemma np_zeros3_nonneg: "0 \<le> n \<Longrightarrow> \<exists>a. np_zeros3 n ng nt = Inr a"
  by (simp add: np_zeros3_def)

lemma facets_Cons: "0 < ng \<Longrightarrow> 0 < nt \<Longrightarrow> \<exists>fs. facets ng nt = (0, 0) # fs"
  by (cases ng; cases nt) (simp_all add: facets_def upt_conv_Cons del: upt_Suc)


text \<open>
  C3. The claim: the electron column is optional, and temperature, pressure and \<open>e-\<close> may
  stand anywhere in the header. The first pass of the double loop evaluates
  \<^verbatim>\<open>iheader.pop(ielec)\<close> unconditionally, and \<^verbatim>\<open>ielec\<close> is bound only under
  \<^verbatim>\<open>if 'e-' in header\<close>: on every file without an electron column (with a first dataset
  of at least one row, on a grid of at least one facet) the loader fails with
  \<^verbatim>\<open>UnboundLocalError\<close>. The three \<^verbatim>\<open>pop\<close>s address the list the one before has
  shortened, so that the header \<^verbatim>\<open>temperature,pressure,e-,H2,He\<close> leaves the columns
  \<open>[1, 4]\<close>, takes \<open>pressure\<close> for a molecule and fails with \<^verbatim>\<open>IndexError\<close> in
  \<^verbatim>\<open>get_weights\<close>; the header \<^verbatim>\<open>pressure,temperature,e-,H2\<close> loads.
\<close>

theorem get_profile_3d_without_electrons_raises:
  assumes "profile_filepath chemistry_input = Some path" and "h5open path = Inr h5db"
    and "h5_groups h5db = (gname, (tname, d0) # ds) # gs" and "snd d0 \<noteq> []"
    and "0 < c_ngangle s0" and "0 < c_ntangle s0"
    and "''temperature'' \<in> set (split_comma (h5_header h5db))"
    and "''pressure'' \<in> set (split_comma (h5_header h5db))"
    and "''e-'' \<notin> set (split_comma (h5_header h5db))"
  shows "get_profile_3d ele h5open chemistry_input s0 = Inl (UnboundLocalError ''ielec'')"
proof -
  define header where "header = split_comma (h5_header h5db)"
  define s where "s = s0\<lparr>dimension := Some ''3d''\<rparr>"
  define nlevel where "nlevel = int (length (snd d0))"
  have nl: "0 \<le> nlevel" "0 \<le> nlevel - 1"
    using assms(4) by (cases "snd d0", simp_all add: nlevel_def)+
  obtain z1 where z1: "np_zeros3 nlevel (c_ngangle s) (c_ntangle s) = Inr z1"
    using np_zeros3_nonneg[OF nl(1)] by blast
  obtain z2 where z2: "np_zeros3 (nlevel - 1) (c_ngangle s) (c_ntangle s) = Inr z2"
    using np_zeros3_nonneg[OF nl(2)] by blast
  define loc where "loc = \<lparr>loc_first = True, loc_electron = False, loc_ielec = None,
                 loc_itemp = None, loc_ipress = None, loc_iheader = [0..<length header]\<rparr>"
  obtain s1 where al: "allocate_3d h5db header s = Inr (nlevel, loc, s1)"
    using assms(3,9) z1 z2
    by (simp add: allocate_3d_def Let_def list_get_def h5_group_def h5_dataset_def dict_get_def
        allocate_electrons_def header_def[symmetric] nlevel_def[symmetric] loc_def)
  obtain it where it: "where_first ''temperature'' header = Inr it"
    using where_first_mem[OF assms(7)] by (auto simp: header_def)
  obtain ip where ip: "where_first ''pressure'' header = Inr ip"
    using where_first_mem[OF assms(8)] by (auto simp: header_def)
  have fp: "first_pass ele header nlevel (loc, s1) = Inl (UnboundLocalError ''ielec'')"
    by (simp add: first_pass_def it ip loc_def local_get_def)
  have fs: "facet_step ele h5db header nlevel (loc, s1) (0, 0) = Inl (UnboundLocalError ''ielec'')"
    using fp by (simp add: facet_step_def loc_def)
  obtain fcs where fc: "facets (c_ngangle s) (c_ntangle s) = (0, 0) # fcs"
    using facets_Cons[of "c_ngangle s" "c_ntangle s"] assms(5,6) by (auto simp: s_def)
  show ?thesis
    using assms(1,2) al fs fc
    by (simp add: get_profile_3d_def Let_def h5py_File_def header_def[symmetric] s_def[symmetric])
qed

theorem get_profile_3d_without_electrons_raises_witness:
  "get_profile_3d ex_ele (ex_h5open ex_h5_no_electrons) ex_input_3d ex_init =
     Inl (UnboundLocalError ''ielec'') \<and>
   get_profile_3d ex_ele (ex_h5open ex_h5_temperature_first) ex_input_3d ex_init = Inl IndexError \<and>
   get_profile_3d ex_ele (ex_h5open ex_h5) ex_input_3d ex_init = Inr ex_state_3d \<and>
   molecules ex_state_3d = Some [''H2''] \<and> weights ex_state_3d = Some [(''H2'', 2)]"
proof -
  have 1: "profile_filepath ex_input_3d = Some ''profile.hdf5''"
    by (simp add: ex_input_3d_def)
  have 2: "ex_h5open ex_h5_no_electrons ''profile.hdf5'' = Inr ex_h5_no_electrons"
    by (simp add: ex_h5open_def)
  have 3: "h5_groups ex_h5_no_electrons =
             (''g0'', (''t0'', (3, [[1, 100, 3], [4, 200, 3]])) # []) # []"
    by (simp add: ex_h5_no_electrons_def)
  have 4: "snd (3 :: nat, [[1, 100, 3], [4, 200, 3 :: real]]) \<noteq> []"
    by simp
  have 5: "0 < c_ngangle ex_init" "0 < c_ntangle ex_init"
    by (simp_all add: ex_init_def init_def)
  have h: "split_comma (h5_header ex_h5_no_electrons) = [''pressure'', ''temperature'', ''H2'']"
    by (simp add: ex_h5_no_electrons_def ex_headers)
  have 6: "''temperature'' \<in> set (split_comma (h5_header ex_h5_no_electrons))"
    "''pressure'' \<in> set (split_comma (h5_header ex_h5_no_electrons))"
    "''e-'' \<notin> set (split_comma (h5_header ex_h5_no_electrons))"
    unfolding h by simp_all
  from get_profile_3d_without_electrons_raises
         [where h5open = "ex_h5open ex_h5_no_electrons" and ele = ex_ele, OF 1 2 3 4 5 6]
       ex_h5_temperature_first_profile ex_h5_profile
  show ?thesis by (simp add: ex_state_3d_def)
qed

section \<open>Levels and layers after loading\<close>

















section \<open>The continuum selector\<close>

lemma if_snoc: "(if b then xs @ [p] else xs) = xs @ (if b then [p] else [])"
  by simp

lemma map_filter_Cons:
  "map f (filter P (x # xs)) = (if P x then [f x] else []) @ map f (filter P xs)"
  by simp

lemma rule_pairs_unfold:
  "rule_pairs ms e =
     (if ''H2'' \<in> set ms then [(''H2'', ''H2'')] else []) @
     (if ''H2'' \<in> set ms \<and> ''He'' \<in> set ms then [(''H2'', ''He'')] else []) @
     (if ''H2'' \<in> set ms \<and> ''N2'' \<in> set ms then [(''H2'', ''N2'')] else []) @
     (if ''H2'' \<in> set ms \<and> ''H'' \<in> set ms then [(''H2'', ''H'')] else []) @
     (if ''H2'' \<in> set ms \<and> ''CH4'' \<in> set ms then [(''H2'', ''CH4'')] else []) @
     (if ''H-'' \<in> set ms then [(''H-'', ''bf'')] else []) @
     (if ''H'' \<in> set ms \<and> e then [(''H-'', ''ff'')] else []) @
     (if ''H2'' \<in> set ms \<and> e then [(''H2'', ''H2-'')] else [])"
  unfolding rule_pairs_def continuum_rules_def map_filter_Cons
  by (simp split del: if_split cong: if_cong)

lemma get_needed_continuum_result:
  assumes "molecules s = Some ms"
  shows "get_needed_continuum s =
     Inr (s\<lparr>continuum_molecules := Some (rule_pairs ms (level s ''electrons'' \<noteq> None)),
            molecules := Some (filter (\<lambda>x. x \<notin> set continuum_only) ms)\<rparr>)"
  using assms unfolding get_needed_continuum_def Let_def if_snoc rule_pairs_unfold continuum_only_def
  by (simp split del: if_split cong: if_cong)

text \<open>
  C5. For every registry and electron presence the selector succeeds, the continuum pairs
  are exactly those of the rule table, in the order of the table, and the registry that
  remains is the old one without H, H2-, H2, H-, He, N2 and H+.
\<close>

theorem get_needed_continuum_follows_rule_table:
  assumes "molecules s = Some ms"
  shows "\<exists>s' ms'. get_needed_continuum s = Inr s' \<and>
     continuum_molecules s' = Some (rule_pairs ms (level s ''electrons'' \<noteq> None)) \<and>
     molecules s' = Some ms' \<and>
     ms' = filter (\<lambda>x. x \<notin> set continuum_only) ms \<and>
     set ms' \<inter> set continuum_only = {}"
  using get_needed_continuum_result[OF assms] by auto

theorem get_needed_continuum_follows_rule_table_witness:
  "(\<exists>s'. get_needed_continuum ex_H2_He_H = Inr s' \<and>
      continuum_molecules s' =
        Some [(''H2'', ''H2''), (''H2'', ''He''), (''H2'', ''H''), (''H-'', ''ff''), (''H2'', ''H2-'')] \<and>
      molecules s' = Some []) \<and>
   (\<exists>s'. get_needed_continuum ex_H2O = Inr s' \<and>
      continuum_molecules s' = Some [] \<and> molecules s' = Some [''H2O''])"
proof -
  have a: "molecules ex_H2_He_H = Some [''H2'', ''He'', ''H'']"
    by (simp add: ex_H2_He_H_def)
  have b: "molecules ex_H2O = Some [''H2O'']"
    by (simp add: ex_H2O_def)
  have e: "level ex_H2_He_H ''electrons'' \<noteq> None" "level ex_H2O ''electrons'' = None"
    by (simp_all add: ex_H2_He_H_def ex_H2O_def ex_init_def init_def)
  from get_needed_continuum_follows_rule_table[OF a] get_needed_continuum_follows_rule_table[OF b] e
  show ?thesis
    by (simp add: rule_pairs_unfold continuum_only_def)
qed

text \<open>
  C6. The claim: with H+ in the registry a warning is appended. The source tests
  \<^verbatim>\<open>'H+' in ['H','H2-','H2','H-','He','N2']\<close>, a list of constants that does not hold
  H+, in place of the registry: the selector never appends a warning, with H+ or without.
\<close>

theorem get_needed_continuum_never_warns:
  assumes "molecules s = Some ms" and "''H+'' \<in> set ms"
  shows "\<exists>s'. get_needed_continuum s = Inr s' \<and> warnings s' = warnings s"
  using get_needed_continuum_result[OF assms(1)] by simp

theorem get_needed_continuum_never_warns_witness:
  "molecules ex_Hplus = Some [''H2O'', ''H+''] \<and> warnings ex_Hplus = [] \<and>
   (\<exists>s'. get_needed_continuum ex_Hplus = Inr s' \<and> warnings s' = [])"
proof -
  have m: "molecules ex_Hplus = Some [''H2O'', ''H+'']"
    by (simp add: ex_Hplus_def)
  have h: "''H+'' \<in> set [''H2O'', ''H+'']"
    by simp
  have w: "warnings ex_Hplus = []"
    by (simp add: ex_Hplus_def ex_init_def init_def)
  from get_needed_continuum_never_warns[OF m h] m w show ?thesis by simp
qed

section \<open>The cloud loader\<close>

text \<open>
  C8. The claim: a combination outside the four supported cases, 3-D mode without a cloud
  file in particular, fails with the "cloud input not recognized" error. The branch
  \<^verbatim>\<open>elif self.dimension=='3d'\<close> does not test the file path, where the three 1-D
  branches do: in 3-D mode without a file the source calls \<^verbatim>\<open>h5py.File(None)\<close> and
  fails with the error of that call; the final \<^verbatim>\<open>else\<close> is not reached.
\<close>

theorem get_clouds_3d_without_file:
  assumes "dimension s = Some ''3d''" and "clouds_filepath input = None"
    and "get_cld_input_grid io (clouds_wavenumber input) = Inr input_wno"
  shows "get_clouds io input wno s = Inl TypeError \<and>
         get_clouds io input wno s \<noteq>
           Inl (Exception ''CLD input not recognized. Either input a filepath, or input None'')"
  using assms
  by (simp add: get_clouds_def Let_def attr_get_def get_clouds_3d_def h5py_File_def)

theorem get_clouds_3d_without_file_witness:
  "get_profile_3d ex_ele (ex_h5open ex_h5) ex_input_3d ex_init = Inr ex_state_3d \<and>
   dimension ex_state_3d = Some ''3d'' \<and> clouds_filepath ex_input_3d = None \<and>
   get_clouds ex_cloud_io ex_input_3d [1, 2, 3] ex_state_3d = Inl TypeError \<and>
   get_clouds ex_cloud_io ex_input_3d [1, 2, 3] ex_state_3d \<noteq>
     Inl (Exception ''CLD input not recognized. Either input a filepath, or input None'')"
proof -
  have 1: "dimension ex_state_3d = Some ''3d''"
    by (simp add: ex_state_3d_def)
  have 2: "clouds_filepath ex_input_3d = None"
    by (simp add: ex_input_3d_def)
  have 3: "get_cld_input_grid ex_cloud_io (clouds_wavenumber ex_input_3d) = Inr [1, 2]"
    by (simp add: ex_cloud_io_def)
  from get_clouds_3d_without_file[OF 1 2 3, of "[1, 2, 3]"] ex_h5_profile 1 2
  show ?thesis by simp
qed

section \<open>The column disaggregator\<close>

lemma project_Inr:
  "project sl key g t d = Inr d' \<longleftrightarrow>
     (\<exists>a b. d key = Some a \<and> sl a g t = Inr b \<and> d' = d(key \<mapsto> b))"
  by (auto simp: project_def ebind_Inr dict_get_def split: option.splits)

lemma disect_Inr:
  assumes "disect s g t = Inr s'"
  shows "\<exists>lt lp yt yp ym yx yc ye c co cg cw lt' lp' yt' yp' ym' yx' yc' ye' co' cg' cw'.
     level s ''temperature'' = Some lt \<and> slice_gt lt g t = Inr lt' \<and>
     level s ''pressure'' = Some lp \<and> slice_gt lp g t = Inr lp' \<and>
     layer s ''temperature'' = Some yt \<and> slice_gt yt g t = Inr yt' \<and>
     layer s ''pressure'' = Some yp \<and> slice_gt yp g t = Inr yp' \<and>
     layer s ''mmw'' = Some ym \<and> slice_gt ym g t = Inr ym' \<and>
     layer s ''mixingratios'' = Some yx \<and> slice_mgt yx g t = Inr yx' \<and>
     layer s ''colden'' = Some yc \<and> slice_gt yc g t = Inr yc' \<and>
     layer s ''electrons'' = Some ye \<and> slice_gt ye g t = Inr ye' \<and>
     layer_cloud s = Some c \<and>
     c ''opd'' = Some co \<and> slice_mgt co g t = Inr co' \<and>
     c ''g0'' = Some cg \<and> slice_mgt cg g t = Inr cg' \<and>
     c ''w0'' = Some cw \<and> slice_mgt cw g t = Inr cw' \<and>
     s' = s\<lparr>level := (level s)(''temperature'' \<mapsto> lt', ''pressure'' \<mapsto> lp'),
            layer := (layer s)(''temperature'' \<mapsto> yt', ''pressure'' \<mapsto> yp', ''mmw'' \<mapsto> ym',
                         ''mixingratios'' \<mapsto> yx', ''colden'' \<mapsto> yc', ''electrons'' \<mapsto> ye'),
            layer_cloud := Some (c(''opd'' \<mapsto> co', ''g0'' \<mapsto> cg', ''w0'' \<mapsto> cw'))\<rparr>"
  using assms unfolding disect_def ebind_Inr project_Inr
  by (auto split: option.splits)

end
